theory Spec2Isabelle
  imports Complex_Main
begin

section \<open>Data model of the agreement schedule engine\<close>

text \<open>
  The engine is the class \<open>JupiterDoc\<close>. JavaScript numbers are modelled as exact reals
  (no IEEE rounding), nullable fields as \<open>option\<close> (\<open>null\<close> and \<open>undefined\<close> are both
  \<open>None\<close>), and a luxon \<open>DateTime\<close> as its \<open>ts\<close> value: the number of milliseconds since
  the epoch, read in a zone with a fixed offset of zero. Comparison of two \<open>DateTime\<close>
  objects in JavaScript goes through \<open>valueOf\<close>, which is this number.
\<close>

type_synonym DateTime = int

definition msPerDay :: int where
  "msPerDay = 86400000"

text \<open>\<open>dt.plus({ days: n })\<close>.\<close>

definition plusDays :: "int \<Rightarrow> DateTime \<Rightarrow> DateTime" where
  "plusDays n dt = dt + n * msPerDay"

text \<open>\<open>dt.c.hour\<close> and \<open>dt.startOf("day")\<close>.\<close>

definition hourOf :: "DateTime \<Rightarrow> int" where
  "hourOf dt = (dt mod msPerDay) div 3600000"

definition startOfDay :: "DateTime \<Rightarrow> DateTime" where
  "startOfDay dt = dt - dt mod msPerDay"

text \<open>JavaScript truthiness of a nullable string, number and whole number of days.\<close>

fun truthyStr :: "string option \<Rightarrow> bool" where
  "truthyStr None = False"
| "truthyStr (Some s) = (s \<noteq> [])"

fun truthyNum :: "real option \<Rightarrow> bool" where
  "truthyNum None = False"
| "truthyNum (Some x) = (x \<noteq> 0)"

fun truthyInt :: "int option \<Rightarrow> bool" where
  "truthyInt None = False"
| "truthyInt (Some x) = (x \<noteq> 0)"

text \<open>The nullish default \<open>x ?? 0\<close>.\<close>

fun orZero :: "real option \<Rightarrow> real" where
  "orZero None = 0"
| "orZero (Some x) = x"

section \<open>Calendar arithmetic\<close>

text \<open>
  The luxon operations the engine calls, on the proleptic Gregorian calendar: the day
  number of a civil date and back, \<open>DateTime.local(y, m, d)\<close>, \<open>dt.year\<close>,
  \<open>dt.daysInYear\<close>, and \<open>dt.plus({ months: n })\<close> and \<open>dt.plus({ years: n })\<close>, which keep
  the time of day and clamp the day of the month to the length of the target month.
\<close>

definition isLeapYear :: "int \<Rightarrow> bool" where
  "isLeapYear y = (y mod 4 = 0 \<and> (y mod 100 \<noteq> 0 \<or> y mod 400 = 0))"

definition daysInMonth :: "int \<Rightarrow> int \<Rightarrow> int" where
  "daysInMonth y m =
     (if m = 2 then (if isLeapYear y then 29 else 28)
      else if m = 4 \<or> m = 6 \<or> m = 9 \<or> m = 11 then 30 else 31)"

definition daysFromCivil :: "int \<Rightarrow> int \<Rightarrow> int \<Rightarrow> int" where
  "daysFromCivil y m d =
     (let y1 = (if m \<le> 2 then y - 1 else y);
          era = y1 div 400;
          yoe = y1 - era * 400;
          mp = (if m > 2 then m - 3 else m + 9);
          doy = (153 * mp + 2) div 5 + d - 1;
          doe = yoe * 365 + yoe div 4 - yoe div 100 + doy
      in era * 146097 + doe - 719468)"

definition civilFromDays :: "int \<Rightarrow> int \<times> int \<times> int" where
  "civilFromDays z =
     (let z1 = z + 719468;
          era = z1 div 146097;
          doe = z1 - era * 146097;
          yoe = (doe - doe div 1460 + doe div 36524 - doe div 146096) div 365;
          doy = doe - (365 * yoe + yoe div 4 - yoe div 100);
          mp = (5 * doy + 2) div 153;
          d = doy - (153 * mp + 2) div 5 + 1;
          m = (if mp < 10 then mp + 3 else mp - 9);
          y = yoe + era * 400
      in (if m \<le> 2 then y + 1 else y, m, d))"

definition localDate :: "int \<Rightarrow> int \<Rightarrow> int \<Rightarrow> DateTime" where
  "localDate y m d = daysFromCivil y m d * msPerDay"

definition yearOf :: "DateTime \<Rightarrow> int" where
  "yearOf dt = fst (civilFromDays (dt div msPerDay))"

definition daysInYear :: "DateTime \<Rightarrow> int" where
  "daysInYear dt = (if isLeapYear (yearOf dt) then 366 else 365)"

definition plusMonths :: "int \<Rightarrow> DateTime \<Rightarrow> DateTime" where
  "plusMonths n dt =
     (case civilFromDays (dt div msPerDay) of
        (y, m, d) \<Rightarrow>
          (let total = m - 1 + n;
               y1 = y + total div 12;
               m1 = total mod 12 + 1
           in localDate y1 m1 (min d (daysInMonth y1 m1)) + dt mod msPerDay))"

definition plusYears :: "int \<Rightarrow> DateTime \<Rightarrow> DateTime" where
  "plusYears n dt = plusMonths (12 * n) dt"

section \<open>Records\<close>

record OpDetails =
  mw :: "real option"
  inverter_count :: "real option"
  inverter_rating_mvas :: "real option"
  construction_commencement :: "DateTime option"
  operations_commencement :: "DateTime option"
  commencement_date :: "DateTime option"

record Termination =
  termination_date :: "DateTime option"

record Grantor =
  grantor_lessor_name :: string
  payment_split :: "real option"

record TermPaymentModel =
  tpm_id :: string
  model_type :: "string option"
  payment_frequency :: "string option"
  minimum_payment :: "real option"
  payment_per_mw :: "real option"
  payment_per_mva :: "real option"
  flat_payment_amount :: "real option"
  payment_per_acre :: "real option"
  periodic_escalation_rate :: "real option"
  periodic_escalation_frequency :: "string option"
  tpm_increase_amount :: "real option"
  prorated_first_period :: bool
  tpm_first_payment_lag :: "int option"
  tpm_subsequent_payment_lag :: "int option"
  apply_payment_lag_to_extension :: bool
  tpm_payee :: "string option"
  tpm_applicable_to_purchase :: bool

text \<open>
  A payment event. Of the fields the code writes, \<open>project_id\<close> and \<open>previous_periods\<close>
  are left out, and the dates are kept as dates where the code stores their formatted
  text. A field the code does not write on an event is \<open>None\<close> or \<open>False\<close>.
\<close>

record PaymentEvent =
  payment_source :: string
  model_id :: "string option"
  payment_index :: "nat option"
  payment_date :: DateTime
  late_payment_date :: "DateTime option"
  payment_type :: "string option"
  payment_amount :: real
  payee :: string
  payment_period_start :: "DateTime option"
  payment_period_end :: "DateTime option"
  prorata_factor :: "real option"
  applicable_to_purchase :: bool
  refundable :: bool
  after_outside_date :: bool

record AgreementTerm =
  term_ordinal :: real
  term_type :: "string option"
  extension :: bool
  term_length_years :: "real option"
  payment_model :: "string option"
  first_payment_start :: "string option"
  increase_amount :: "real option"
  escalation_rate :: "real option"
  start_date :: "DateTime option"
  end_date :: "DateTime option"
  cancelled_by_ops :: bool
  cumulative_increase_amount :: "real option"
  cumulative_escalation_rate :: "real option"
  periodic_payments :: "PaymentEvent list option"

section \<open>Base payment and payment-model resolution\<close>

text \<open>
  \<open>periodicBasePayment\<close>: the \<open>Math.max\<close> over the five ways to compute a payment, each
  missing number defaulted by \<open>?? 0\<close>. An absent \<open>op_details\<close> is replaced by zeros.
  The two cumulative arguments are read from the term, where they are \<open>undefined\<close> until
  the term dates have been calculated; arithmetic on \<open>undefined\<close> gives \<open>NaN\<close>, which is
  the result \<open>None\<close> here.
\<close>

definition maxBasePayment :: "TermPaymentModel \<Rightarrow> OpDetails option \<Rightarrow> real option \<Rightarrow> real" where
  "maxBasePayment model op_details agreement_acres =
     (let op_mw = (case op_details of None \<Rightarrow> 0 | Some od \<Rightarrow> orZero (mw od));
          op_count = (case op_details of None \<Rightarrow> 0 | Some od \<Rightarrow> orZero (inverter_count od));
          op_rating = (case op_details of None \<Rightarrow> 0 | Some od \<Rightarrow> orZero (inverter_rating_mvas od))
      in max (orZero (minimum_payment model))
          (max (orZero (payment_per_mw model) * op_mw)
            (max (op_count * op_rating * orZero (payment_per_mva model))
              (max (orZero (flat_payment_amount model))
                   (orZero (payment_per_acre model) * orZero agreement_acres)))))"

definition periodicBasePayment ::
  "TermPaymentModel option \<Rightarrow> OpDetails option \<Rightarrow> real option \<Rightarrow> real option \<Rightarrow> real option
     \<Rightarrow> real option" where
  "periodicBasePayment model op_details cumulative_escalation cumulative_increase agreement_acres =
     (case model of
        None \<Rightarrow> Some 0
      | Some m \<Rightarrow>
          (case (cumulative_increase, cumulative_escalation) of
             (Some inc, Some esc) \<Rightarrow> Some ((maxBasePayment m op_details agreement_acres + inc) * esc)
           | _ \<Rightarrow> None))"

text \<open>
  \<open>termPaymentModel\<close>: no models, no result; otherwise the name is
  \<open>term.payment_model ?? term.term_type\<close>, a truthy name selects the first model of that
  \<open>model_type\<close>, and a falsy one selects \<open>paymentModels[0]\<close>.
\<close>

fun termPaymentModel :: "AgreementTerm \<Rightarrow> TermPaymentModel list option \<Rightarrow> TermPaymentModel option" where
  "termPaymentModel t None = None"
| "termPaymentModel t (Some []) = None"
| "termPaymentModel t (Some (m # ms)) =
     (let model_name = (case payment_model t of Some n \<Rightarrow> Some n | None \<Rightarrow> term_type t)
      in if truthyStr model_name
         then List.find (\<lambda>x. model_type x = model_name) (m # ms)
         else Some m)"

section \<open>Period calendar\<close>

text \<open>
  \<open>calcPaymentPeriodEnd\<close>. The first part is the \<open>if\<close> chain that assigns
  \<open>payment_period_end\<close>; no branch taken leaves it \<open>undefined\<close>. The last line compares it
  with the term end: \<open>undefined >= term_end\<close> is false, so \<open>undefined\<close> is returned as it is.
\<close>

definition naturalPeriodEnd :: "DateTime \<Rightarrow> string option \<Rightarrow> bool \<Rightarrow> DateTime \<Rightarrow> DateTime option" where
  "naturalPeriodEnd start frequency prorated term_end =
     (if prorated then
        (if frequency = Some ''Annually'' then Some (localDate (yearOf start) 12 31)
         else if frequency = Some ''Quarterly'' then Some (plusDays (- 1) (plusMonths 3 start))
         else if frequency = Some ''Monthly'' then Some (plusDays (- 1) (plusMonths 1 start))
         else None)
      else
        (if frequency = Some ''Annually'' then Some (plusDays (- 1) (plusYears 1 start))
         else if frequency = Some ''Semiannually'' then Some (plusDays (- 1) (plusMonths 6 start))
         else if frequency = Some ''Quarterly'' then Some (plusDays (- 1) (plusMonths 3 start))
         else if frequency = Some ''Monthly'' then Some (plusDays (- 1) (plusMonths 1 start))
         else if frequency = Some ''Once per Term'' then Some term_end
         else None))"

definition calcPaymentPeriodEnd :: "DateTime \<Rightarrow> string option \<Rightarrow> bool \<Rightarrow> DateTime \<Rightarrow> DateTime option" where
  "calcPaymentPeriodEnd start frequency prorated term_end =
     (case naturalPeriodEnd start frequency prorated term_end of
        None \<Rightarrow> None
      | Some period_end \<Rightarrow> if period_end \<ge> term_end then Some term_end else Some period_end)"

section \<open>Term date resolver\<close>

text \<open>
  Modelled from the spec: \<open>utils.getEarliestDateTime\<close> is not among the sources. The term
  end is "capped to the earliest of a configured termination date", and the first
  operational date is "the earliest operational-commencement date": the earlier of the
  dates that are present, and nothing when neither is.
\<close>

fun getEarliestDateTime :: "DateTime option \<Rightarrow> DateTime option \<Rightarrow> DateTime option" where
  "getEarliestDateTime None b = b"
| "getEarliestDateTime (Some a) None = Some a"
| "getEarliestDateTime (Some a) (Some b) = Some (min a b)"

text \<open>
  The start date of the term at \<open>index\<close> of the sorted array. \<open>None\<close> is a \<open>TypeError\<close>:
  either \<open>agreementTerms[index - 1].end_date\<close> is \<open>undefined\<close> and \<open>.plus\<close> is called on
  it, or the whole \<open>||\<close> chain is \<open>undefined\<close> and \<open>.toFormat\<close> is called on it one line
  below. For \<open>index = 0\<close> the element \<open>agreementTerms[-1]\<close> is \<open>undefined\<close> and the optional
  chain yields \<open>undefined\<close>.
\<close>

definition termStartDate :: "DateTime option \<Rightarrow> OpDetails \<Rightarrow> AgreementTerm list \<Rightarrow> nat \<Rightarrow> DateTime option" where
  "termStartDate effectiveDate opDetails agreementTerms index =
     (let t = agreementTerms ! index
      in if term_type t = Some ''Construction'' \<and> \<not> extension t
            \<and> construction_commencement opDetails \<noteq> None
         then construction_commencement opDetails
         else if term_type t = Some ''Operations'' \<and> \<not> extension t
            \<and> operations_commencement opDetails \<noteq> None
         then operations_commencement opDetails
         else if index = 0
         then (case commencement_date opDetails of Some c \<Rightarrow> Some c | None \<Rightarrow> effectiveDate)
         else (case end_date (agreementTerms ! (index - 1)) of
                 None \<Rightarrow> None
               | Some e \<Rightarrow> Some (plusDays 1 e)))"

text \<open>
  The check of a calculated term against the operational dates: whether the term is
  cancelled, and its end date. A term that is neither "Construction" nor "Operations" is
  cancelled when it starts at or after the first operational date and cut short when it
  only ends at or after it; a "Construction" term is cut at the operations commencement.
\<close>

definition opsAdjust :: "OpDetails \<Rightarrow> string option \<Rightarrow> DateTime \<Rightarrow> DateTime \<Rightarrow> bool \<times> DateTime" where
  "opsAdjust opDetails ttype start end0 =
     (if ttype \<noteq> Some ''Construction'' \<and> ttype \<noteq> Some ''Operations'' then
        (case getEarliestDateTime (construction_commencement opDetails)
                (operations_commencement opDetails) of
           None \<Rightarrow> (False, end0)
         | Some firstOpsDate \<Rightarrow>
             if start \<ge> firstOpsDate then (True, end0)
             else if end0 \<ge> firstOpsDate then (False, plusDays (- 1) firstOpsDate)
             else (False, end0))
      else if ttype = Some ''Construction'' then
        (case operations_commencement opDetails of
           None \<Rightarrow> (False, end0)
         | Some oc \<Rightarrow> if end0 \<ge> oc then (False, plusDays (- 1) oc) else (False, end0))
      else (False, end0))"

text \<open>
  The two cumulative values of a term: \<open>filter\<close> over the array, then \<open>reduce\<close> from 0
  with \<open>+\<close>, and from 1 with \<open>*\<close>.
\<close>

definition cumulativeIncrease :: "AgreementTerm list \<Rightarrow> AgreementTerm \<Rightarrow> real" where
  "cumulativeIncrease agreementTerms t =
     foldl (\<lambda>accumulator x. accumulator + orZero (increase_amount x)) 0
       (filter (\<lambda>x. term_ordinal x \<le> term_ordinal t \<and> payment_model x = payment_model t)
          agreementTerms)"

definition cumulativeEscalation :: "AgreementTerm list \<Rightarrow> AgreementTerm \<Rightarrow> real" where
  "cumulativeEscalation agreementTerms t =
     foldl (\<lambda>accumulator x. accumulator * (1 + orZero (escalation_rate x) / 100)) 1
       (filter (\<lambda>x. term_ordinal x \<le> term_ordinal t \<and> payment_model x = payment_model t)
          agreementTerms)"

text \<open>
  The dates the \<open>forEach\<close> callback calculates for the element at \<open>index\<close>: its start
  date, whether the operational dates cancel it, and its end date; \<open>None\<close> for a
  \<open>TypeError\<close>. The argument \<open>plusDuration\<close> stands for
  \<open>start.plus(utils.plusDuration(term_length_years))\<close>, whose helper is not among the
  sources; a falsy term length adds \<open>{ days: 0 }\<close>. The end is rounded up to the next day
  when the hour is 12 or later, set one day back, and capped by the termination date.
\<close>

definition termDates ::
  "(real \<Rightarrow> DateTime \<Rightarrow> DateTime) \<Rightarrow> DateTime option \<Rightarrow> OpDetails \<Rightarrow> Termination
     \<Rightarrow> AgreementTerm list \<Rightarrow> nat \<Rightarrow> (DateTime \<times> bool \<times> DateTime) option" where
  "termDates plusDuration effectiveDate opDetails termination agreementTerms index =
     (let t = agreementTerms ! index
      in case termStartDate effectiveDate opDetails agreementTerms index of
           None \<Rightarrow> None
         | Some start \<Rightarrow>
             (let added = (if truthyNum (term_length_years t)
                           then plusDuration (orZero (term_length_years t)) start
                           else plusDays 0 start);
                  endCalc = startOfDay (plusDays (if hourOf added \<ge> 12 then 1 else 0) added)
              in case getEarliestDateTime (termination_date termination)
                        (Some (plusDays (- 1) endCalc)) of
                   None \<Rightarrow> None
                 | Some end0 \<Rightarrow>
                     (case opsAdjust opDetails (term_type t) start end0 of
                        (cancel, end1) \<Rightarrow> Some (start, cancel, end1))))"

text \<open>
  The body of the \<open>forEach\<close> callback for the element at \<open>index\<close>: the element with its
  calculated fields assigned, \<open>cancelled_by_ops\<close> only when the term is cancelled. The
  formatted texts of the two dates are left out.
\<close>

definition resolveTerm ::
  "(real \<Rightarrow> DateTime \<Rightarrow> DateTime) \<Rightarrow> DateTime option \<Rightarrow> OpDetails \<Rightarrow> Termination
     \<Rightarrow> AgreementTerm list \<Rightarrow> nat \<Rightarrow> AgreementTerm option" where
  "resolveTerm plusDuration effectiveDate opDetails termination agreementTerms index =
     (let t = agreementTerms ! index
      in case termDates plusDuration effectiveDate opDetails termination agreementTerms index of
           None \<Rightarrow> None
         | Some (start, cancel, end1) \<Rightarrow>
             Some (t\<lparr>start_date := Some start,
                     end_date := Some end1,
                     cancelled_by_ops := (if cancel then True else cancelled_by_ops t),
                     cumulative_increase_amount := Some (cumulativeIncrease agreementTerms t),
                     cumulative_escalation_rate := Some (cumulativeEscalation agreementTerms t)\<rparr>))"

text \<open>
  The \<open>forEach\<close> over the sorted array, which the callback mutates in place: the element
  at \<open>index\<close> is replaced by its resolved version before the next index is visited.
\<close>

fun termsLoop ::
  "(real \<Rightarrow> DateTime \<Rightarrow> DateTime) \<Rightarrow> DateTime option \<Rightarrow> OpDetails \<Rightarrow> Termination
     \<Rightarrow> nat list \<Rightarrow> AgreementTerm list \<Rightarrow> AgreementTerm list option" where
  "termsLoop plusDuration effectiveDate opDetails termination [] agreementTerms = Some agreementTerms"
| "termsLoop plusDuration effectiveDate opDetails termination (index # rest) agreementTerms =
     (case resolveTerm plusDuration effectiveDate opDetails termination agreementTerms index of
        None \<Rightarrow> None
      | Some t \<Rightarrow>
          termsLoop plusDuration effectiveDate opDetails termination rest (agreementTerms[index := t]))"

text \<open>
  \<open>calcAgreementTermDates\<close>: nothing is done without an effective date and without a
  commencement date; otherwise the terms are sorted by \<open>term_ordinal\<close> (the comparator is
  the difference of the ordinals and the sort is stable) and resolved in that order. The
  result is the array of terms after the call, \<open>None\<close> for a \<open>TypeError\<close>.
\<close>

definition calcAgreementTermDates ::
  "(real \<Rightarrow> DateTime \<Rightarrow> DateTime) \<Rightarrow> AgreementTerm list \<Rightarrow> DateTime option \<Rightarrow> OpDetails
     \<Rightarrow> Termination \<Rightarrow> AgreementTerm list option" where
  "calcAgreementTermDates plusDuration agreementTerms effectiveDate opDetails termination =
     (if effectiveDate = None \<and> commencement_date opDetails = None then Some agreementTerms
      else let sorted_terms = sort_key term_ordinal agreementTerms
           in termsLoop plusDuration effectiveDate opDetails termination
                [0..<length sorted_terms] sorted_terms)"

text \<open>\<open>final_term_end_date\<close>: the end date of the last term of the array, if there is one.\<close>

definition finalTermEndDate :: "AgreementTerm list \<Rightarrow> DateTime option" where
  "finalTermEndDate agreementTerms =
     (case agreementTerms of [] \<Rightarrow> None | _ \<Rightarrow> end_date (last agreementTerms))"

text \<open>
  The fields of a term that the cumulative values read, and a term with its calculated
  fields erased: the part of a term that the resolver never assigns.
\<close>

definition termStatic :: "AgreementTerm \<Rightarrow> real \<times> string option \<times> real option \<times> real option" where
  "termStatic t = (term_ordinal t, payment_model t, increase_amount t, escalation_rate t)"

definition termInput :: "AgreementTerm \<Rightarrow> AgreementTerm" where
  "termInput t = t\<lparr>start_date := None, end_date := None, cancelled_by_ops := False,
     cumulative_increase_amount := None, cumulative_escalation_rate := None\<rparr>"

subsection \<open>Example agreement\<close>

text \<open>
  Three terms given out of order, an effective date of 2024-01-01 and an operations
  commencement of 2026-01-01, used to evaluate the resolver. \<open>monthsDuration\<close> stands in
  for the absent duration helper: the term length in years is added as whole months.
\<close>

definition monthsDuration :: "real \<Rightarrow> DateTime \<Rightarrow> DateTime" where
  "monthsDuration years dt = plusMonths \<lfloor>years * 12\<rfloor> dt"

definition exTerm :: "real \<Rightarrow> string \<Rightarrow> real \<Rightarrow> string \<Rightarrow> real option \<Rightarrow> real option \<Rightarrow> AgreementTerm" where
  "exTerm ordinal ttype years pmodel inc esc =
     \<lparr>term_ordinal = ordinal, term_type = Some ttype, extension = False,
      term_length_years = Some years, payment_model = Some pmodel, first_payment_start = None,
      increase_amount = inc, escalation_rate = esc, start_date = None, end_date = None,
      cancelled_by_ops = False, cumulative_increase_amount = None,
      cumulative_escalation_rate = None, periodic_payments = None\<rparr>"

definition exTerms :: "AgreementTerm list" where
  "exTerms = [exTerm 3 ''Operations'' 2 ''Rent'' (Some 50) (Some 10),
              exTerm 1 ''Development'' 1 ''Rent'' (Some 100) (Some 5),
              exTerm 2 ''Construction'' (1 / 2) ''Build'' None (Some 20)]"

definition exOps :: "DateTime option \<Rightarrow> DateTime option \<Rightarrow> OpDetails" where
  "exOps operations commencement =
     \<lparr>mw = None, inverter_count = None, inverter_rating_mvas = None,
      construction_commencement = None, operations_commencement = operations,
      commencement_date = commencement\<rparr>"

definition exResolved :: "AgreementTerm list" where
  "exResolved =
     [(exTerm 1 ''Development'' 1 ''Rent'' (Some 100) (Some 5))
        \<lparr>start_date := Some (localDate 2024 1 1), end_date := Some (localDate 2024 12 31),
         cumulative_increase_amount := Some 100, cumulative_escalation_rate := Some (21 / 20)\<rparr>,
      (exTerm 2 ''Construction'' (1 / 2) ''Build'' None (Some 20))
        \<lparr>start_date := Some (localDate 2025 1 1), end_date := Some (localDate 2025 6 30),
         cumulative_increase_amount := Some 0, cumulative_escalation_rate := Some (6 / 5)\<rparr>,
      (exTerm 3 ''Operations'' 2 ''Rent'' (Some 50) (Some 10))
        \<lparr>start_date := Some (localDate 2026 1 1), end_date := Some (localDate 2027 12 31),
         cumulative_increase_amount := Some 150, cumulative_escalation_rate := Some (231 / 200)\<rparr>]"

text \<open>The same terms resolved from a commencement date of 2024-03-01 alone.\<close>

definition exResolvedComm :: "AgreementTerm list" where
  "exResolvedComm =
     [(exTerm 1 ''Development'' 1 ''Rent'' (Some 100) (Some 5))
        \<lparr>start_date := Some (localDate 2024 3 1), end_date := Some (localDate 2025 2 28),
         cumulative_increase_amount := Some 100, cumulative_escalation_rate := Some (21 / 20)\<rparr>,
      (exTerm 2 ''Construction'' (1 / 2) ''Build'' None (Some 20))
        \<lparr>start_date := Some (localDate 2025 3 1), end_date := Some (localDate 2025 8 31),
         cumulative_increase_amount := Some 0, cumulative_escalation_rate := Some (6 / 5)\<rparr>,
      (exTerm 3 ''Operations'' 2 ''Rent'' (Some 50) (Some 10))
        \<lparr>start_date := Some (localDate 2025 9 1), end_date := Some (localDate 2027 8 31),
         cumulative_increase_amount := Some 150, cumulative_escalation_rate := Some (231 / 200)\<rparr>]"

text \<open>
  Two terms, "Construction" and then "Operations", resolved with no effective date, a
  commencement date of 2024-03-01 and a construction commencement of 2024-06-01.
\<close>

definition exMilestoneTerms :: "AgreementTerm list" where
  "exMilestoneTerms = [exTerm 1 ''Construction'' 1 ''Build'' None None,
                       exTerm 2 ''Operations'' 2 ''Rent'' None None]"

definition exMilestoneOps :: OpDetails where
  "exMilestoneOps =
     \<lparr>mw = None, inverter_count = None, inverter_rating_mvas = None,
      construction_commencement = Some (localDate 2024 6 1), operations_commencement = None,
      commencement_date = Some (localDate 2024 3 1)\<rparr>"

definition exMilestoneResolved :: "AgreementTerm list" where
  "exMilestoneResolved =
     [(exTerm 1 ''Construction'' 1 ''Build'' None None)
        \<lparr>start_date := Some (localDate 2024 6 1), end_date := Some (localDate 2025 5 31),
         cumulative_increase_amount := Some 0, cumulative_escalation_rate := Some 1\<rparr>,
      (exTerm 2 ''Operations'' 2 ''Rent'' None None)
        \<lparr>start_date := Some (localDate 2025 6 1), end_date := Some (localDate 2027 5 31),
         cumulative_increase_amount := Some 0, cumulative_escalation_rate := Some 1\<rparr>]"

section \<open>Documents, payees and date-based payments\<close>

record PropertyDescription =
  agreement_acres :: "real option"
  exclude_acres_from_controlled_acres :: bool
  county :: "string option"
  state :: "string option"

record DatePaymentModel =
  dpm_id :: string
  date_one_time :: "DateTime option"
  date_begin :: "DateTime option"
  date_end :: "DateTime option"
  frequency :: "string option"
  dpm_payment_amount :: "real option"
  dpm_increase_amount :: "real option"
  dpm_periodic_escalation_rate :: "real option"
  dpm_first_payment_lag :: "int option"
  dpm_subsequent_payment_lag :: "int option"
  dpm_payment_type :: "string option"
  dpm_payee :: "string option"
  dpm_applicable_to_purchase :: bool
  dpm_refundable :: bool

text \<open>
  The fields of a \<open>JupiterDoc\<close> that the engine reads or writes. The field \<open>id\<close> is
  \<open>doc_id\<close> and \<open>termination\<close> is \<open>doc_termination\<close>, where \<open>None\<close> is the empty object
  \<open>{}\<close> the constructor stores when the document has no termination fact. The array
  \<open>amendments\<close> of documents is kept as the list of their ids.
\<close>

record JupiterDoc =
  doc_id :: string
  agreement_group :: "string option"
  project_id :: "string option"
  effective_date :: "DateTime option"
  amendment_date :: "DateTime option"
  letter_date :: "DateTime option"
  deed_date :: "DateTime option"
  payment_directive_date :: "DateTime option"
  recorded_date :: "DateTime option"
  outside_date :: "DateTime option"
  property_description :: "PropertyDescription list"
  jupiter_entity :: "string option"
  grantee :: "string option"
  grantor :: "Grantor list"
  full_purchase_price :: "real option"
  estimated_closing_date :: "DateTime option"
  date_purchased :: "DateTime option"
  date_sold :: "DateTime option"
  operational_details :: OpDetails
  total_controlled_acres :: real
  agreement_terms :: "AgreementTerm list"
  term_payment_models :: "TermPaymentModel list"
  doc_termination :: "Termination option"
  date_payment_models :: "DatePaymentModel list"
  date_payments :: "PaymentEvent list"
  review_status :: "string option"
  review_status_doc_id :: "string option"
  review_status_instance_id :: "string option"
  review_status_value_instance_id :: "string option"
  review_status_notes :: "string option"
  amendments :: "string list option"

text \<open>\<open>this.termination?.termination_date\<close>.\<close>

definition terminationDate :: "JupiterDoc \<Rightarrow> DateTime option" where
  "terminationDate this =
     (case doc_termination this of None \<Rightarrow> None | Some t \<Rightarrow> termination_date t)"

subsection \<open>Payee names and shares\<close>

text \<open>
  \<open>nicknameGrantor\<close>: the name up to its first " and " or, when it has a ", " past the
  first position, up to its first ","; \<open>indexOf\<close> is the position of the first occurrence
  and \<open>toLowerCase\<close> acts on the letters A to Z.
\<close>

fun indexOf :: "string \<Rightarrow> string \<Rightarrow> nat option" where
  "indexOf needle [] = (if needle = [] then Some 0 else None)"
| "indexOf needle (c # cs) =
     (if take (length needle) (c # cs) = needle then Some 0
      else map_option Suc (indexOf needle cs))"

definition toLowerCase :: "string \<Rightarrow> string" where
  "toLowerCase s =
     map (\<lambda>c. let n = (of_char c :: nat) in if 65 \<le> n \<and> n \<le> 90 then char_of (n + 32) else c) s"

definition nicknameGrantor :: "string \<Rightarrow> string" where
  "nicknameGrantor longName =
     (let lower = toLowerCase longName;
          and_index = (case indexOf '' and '' lower of
                         None \<Rightarrow> []
                       | Some k \<Rightarrow> if k > 0 then [k] else []);
          comma_index = (case indexOf '', '' lower of
                           None \<Rightarrow> []
                         | Some k \<Rightarrow>
                             if k > 0
                             then (case indexOf '','' lower of None \<Rightarrow> [] | Some j \<Rightarrow> [j])
                             else [])
      in case and_index @ comma_index of
           [] \<Rightarrow> longName
         | k # ks \<Rightarrow> take (fold min ks k) longName)"

text \<open>
  The share of a payee in the date-based, standard term-based and settlement paths:
  \<open>(g.payment_split ?? 100 / grantor.length) / 100\<close>, where the division binds tighter
  than \<open>??\<close>. The blended path writes \<open>(g.payment_split ?? 100) / grantor.length / 100\<close>.
\<close>

definition grantorShare :: "Grantor list \<Rightarrow> Grantor \<Rightarrow> real" where
  "grantorShare grantors g =
     (case payment_split g of Some s \<Rightarrow> s | None \<Rightarrow> 100 / real (length grantors)) / 100"

definition blendedGrantorShare :: "Grantor list \<Rightarrow> Grantor \<Rightarrow> real" where
  "blendedGrantorShare grantors g =
     (case payment_split g of Some s \<Rightarrow> s | None \<Rightarrow> 100) / real (length grantors) / 100"

text \<open>
  Modelled from the spec: \<open>utils.calculateCompoundingGrowth\<close> is not among the sources;
  \<open>compoundingGrowth(base, rate, periods) = base \<times> (1+rate)^periods\<close>.
\<close>

definition calculateCompoundingGrowth :: "real \<Rightarrow> real \<Rightarrow> nat \<Rightarrow> real" where
  "calculateCompoundingGrowth base rate periods = base * (1 + rate) ^ periods"

text \<open>
  Modelled from the spec: \<open>utils.getEarliestDateTimeFromArray\<close> is not among the sources;
  the loop runs "while \<open>\<le>\<close> the earliest of (termination date, \<open>date_one_time\<close>,
  \<open>date_end\<close>)", the dates that are present.
\<close>

definition getEarliestDateTimeFromArray :: "DateTime option list \<Rightarrow> DateTime option" where
  "getEarliestDateTimeFromArray ds = foldl getEarliestDateTime None ds"

text \<open>The late payment date: the payment date plus a truthy number of lag days.\<close>

definition lagDate :: "int option \<Rightarrow> DateTime \<Rightarrow> DateTime option" where
  "lagDate lag dt = (if truthyInt lag then map_option (\<lambda>l. plusDays l dt) lag else None)"

subsection \<open>Date-based payments\<close>

text \<open>
  The events one pass of the \<open>while\<close> loop of \<open>calcDatePayments\<close> pushes: one per grantor,
  for the payment date and the period counter of the pass. The model has passed the
  guard, so its \<open>payment_amount\<close> is a number.
\<close>

definition datePaymentAmount :: "DatePaymentModel \<Rightarrow> nat \<Rightarrow> real" where
  "datePaymentAmount model period =
     calculateCompoundingGrowth
       (orZero (dpm_payment_amount model) + orZero (dpm_increase_amount model) * (real period - 1))
       (orZero (dpm_periodic_escalation_rate model) / 100)
       period"

definition datePaymentEvents :: "JupiterDoc \<Rightarrow> DatePaymentModel \<Rightarrow> DateTime \<Rightarrow> nat \<Rightarrow> PaymentEvent list" where
  "datePaymentEvents this model pay_date period =
     (let amount = datePaymentAmount model period;
          late = (if period = 1 then lagDate (dpm_first_payment_lag model) pay_date
                  else if period > 1 then lagDate (dpm_subsequent_payment_lag model) pay_date
                  else None)
      in map (\<lambda>g.
           \<lparr>payment_source = (if date_one_time model \<noteq> None then ''Date Model (One Time)''
                               else ''Date Model''),
            model_id = Some (dpm_id model),
            payment_index = Some (period - 1),
            payment_date = pay_date,
            late_payment_date = late,
            payment_type = dpm_payment_type model,
            payment_amount = amount * grantorShare (grantor this) g,
            payee = (case dpm_payee model of Some p \<Rightarrow> p
                     | None \<Rightarrow> nicknameGrantor (grantor_lessor_name g)),
            payment_period_start = None,
            payment_period_end = None,
            prorata_factor = None,
            applicable_to_purchase = dpm_applicable_to_purchase model,
            refundable = dpm_refundable model,
            after_outside_date = (case outside_date this of None \<Rightarrow> False
                                  | Some od \<Rightarrow> pay_date > od)\<rparr>)
           (grantor this))"

text \<open>
  The \<open>while\<close> loop of one model: the events it pushes, in order. The loop ends when the
  payment date passes the end date or the purchase date, and the callback returns after
  one pass when the frequency is none of the four it can advance by. A loop that never
  ends has no result.
\<close>

partial_function (option) datePaymentLoop ::
  "JupiterDoc \<Rightarrow> DatePaymentModel \<Rightarrow> DateTime \<Rightarrow> DateTime \<Rightarrow> nat \<Rightarrow> PaymentEvent list option" where
  "datePaymentLoop this model payment_date_end pay_date period =
     (if \<not> pay_date \<le> payment_date_end then Some []
      else if (case date_purchased this of None \<Rightarrow> False | Some dp \<Rightarrow> pay_date > dp) then Some []
      else if frequency model = Some ''Annually'' then
        Option.bind (datePaymentLoop this model payment_date_end (plusYears 1 pay_date) (period + 1))
          (\<lambda>rest. Some (datePaymentEvents this model pay_date period @ rest))
      else if frequency model = Some ''Semiannually'' then
        Option.bind (datePaymentLoop this model payment_date_end (plusMonths 6 pay_date) (period + 1))
          (\<lambda>rest. Some (datePaymentEvents this model pay_date period @ rest))
      else if frequency model = Some ''Quarterly'' then
        Option.bind (datePaymentLoop this model payment_date_end (plusMonths 3 pay_date) (period + 1))
          (\<lambda>rest. Some (datePaymentEvents this model pay_date period @ rest))
      else if frequency model = Some ''Monthly'' then
        Option.bind (datePaymentLoop this model payment_date_end (plusMonths 1 pay_date) (period + 1))
          (\<lambda>rest. Some (datePaymentEvents this model pay_date period @ rest))
      else Some (datePaymentEvents this model pay_date period))"

declare datePaymentLoop.simps [code]

text \<open>
  The \<open>forEach\<close> callback of \<open>calcDatePayments\<close> for one model: nothing without either a
  one-time date or all of begin date, end date and frequency, without a truthy payment
  amount, or without grantors; otherwise the loop from \<open>date_one_time ?? date_begin\<close> to
  the earliest of the termination date, the one-time date and the end date. A comparison
  with an \<open>undefined\<close> date is false, so the loop does not run.
\<close>

definition calcDatePaymentsForModel :: "JupiterDoc \<Rightarrow> DatePaymentModel \<Rightarrow> PaymentEvent list option" where
  "calcDatePaymentsForModel this model =
     (if (\<not> (date_begin model \<noteq> None \<and> date_end model \<noteq> None \<and> truthyStr (frequency model))
            \<and> date_one_time model = None)
         \<or> \<not> truthyNum (dpm_payment_amount model) \<or> grantor this = []
      then Some []
      else case (case date_one_time model of Some d \<Rightarrow> Some d | None \<Rightarrow> date_begin model) of
             None \<Rightarrow> Some []
           | Some pay_date \<Rightarrow>
               (case getEarliestDateTimeFromArray
                       [terminationDate this, date_one_time model, date_end model] of
                  None \<Rightarrow> Some []
                | Some payment_date_end \<Rightarrow>
                    datePaymentLoop this model payment_date_end pay_date 1))"

text \<open>
  \<open>calcDatePayments\<close>: the array \<open>date_payments\<close> is reset and every model pushes its
  events onto it in turn.
\<close>

fun calcDatePaymentModels :: "JupiterDoc \<Rightarrow> DatePaymentModel list \<Rightarrow> PaymentEvent list option" where
  "calcDatePaymentModels this [] = Some []"
| "calcDatePaymentModels this (model # models) =
     Option.bind (calcDatePaymentsForModel this model)
       (\<lambda>events. Option.bind (calcDatePaymentModels this models)
          (\<lambda>rest. Some (events @ rest)))"

definition calcDatePayments :: "JupiterDoc \<Rightarrow> JupiterDoc option" where
  "calcDatePayments this =
     map_option (\<lambda>events. this\<lparr>date_payments := events\<rparr>)
       (calcDatePaymentModels this (date_payment_models this))"

subsection \<open>Purchase-price settlement\<close>

text \<open>
  The payments already applicable to the purchase price: for every term with a
  \<open>periodic_payments\<close> array, and then for \<open>date_payments\<close>, the \<open>filter\<close> on
  \<open>applicable_to_purchase\<close> and the \<open>reduce\<close> that adds the amounts from 0.
\<close>

definition applicableSum :: "PaymentEvent list \<Rightarrow> real" where
  "applicableSum events =
     foldl (\<lambda>a b. a + payment_amount b) 0 (filter applicable_to_purchase events)"

definition previousApplicablePayments :: "JupiterDoc \<Rightarrow> real" where
  "previousApplicablePayments this =
     foldl (\<lambda>previous t. case periodic_payments t of
                             None \<Rightarrow> previous
                           | Some payments \<Rightarrow> previous + applicableSum payments)
       0 (agreement_terms this)
     + applicableSum (date_payments this)"

text \<open>\<open>this.date_purchased ?? this.estimated_closing_date\<close>.\<close>

definition closingDate :: "JupiterDoc \<Rightarrow> DateTime option" where
  "closingDate this =
     (case date_purchased this of Some d \<Rightarrow> Some d | None \<Rightarrow> estimated_closing_date this)"

definition purchasePriceEvent :: "JupiterDoc \<Rightarrow> real \<Rightarrow> DateTime \<Rightarrow> real \<Rightarrow> Grantor \<Rightarrow> PaymentEvent" where
  "purchasePriceEvent this price closing previous g =
     \<lparr>payment_source = ''Purchase Price Calculation'',
      model_id = None,
      payment_index = None,
      payment_date = closing,
      late_payment_date = None,
      payment_type = Some ''Purchase Price'',
      payment_amount = (price - previous) * grantorShare (grantor this) g,
      payee = nicknameGrantor (grantor_lessor_name g),
      payment_period_start = None,
      payment_period_end = None,
      prorata_factor = None,
      applicable_to_purchase = True,
      refundable = False,
      after_outside_date = False\<rparr>"

text \<open>
  \<open>calcEstimatedPurchasePrice\<close>: the document after the call. The early return and the
  later \<open>if\<close> test the same price and dates; the later one also asks that no termination
  date is set.
\<close>

definition calcEstimatedPurchasePrice :: "JupiterDoc \<Rightarrow> JupiterDoc" where
  "calcEstimatedPurchasePrice this =
     (if \<not> truthyNum (full_purchase_price this)
         \<or> (estimated_closing_date this = None \<and> date_purchased this = None)
      then this
      else
        (let previous_applicable_payments = previousApplicablePayments this
         in case (closingDate this, full_purchase_price this) of
              (Some closing, Some price) \<Rightarrow>
                if truthyNum (full_purchase_price this) \<and> terminationDate this = None
                then this\<lparr>date_payments := date_payments this
                        @ map (purchasePriceEvent this price closing previous_applicable_payments)
                            (grantor this)\<rparr>
                else this
            | _ \<Rightarrow> this))"

subsection \<open>Blended term payments\<close>

text \<open>
  One payment of \<open>utils.blendedEscalation\<close>, which is not among the sources: the fields
  \<open>calcBlendedPeriodicPaymentsForTerm\<close> reads from it.
\<close>

record BlendedPayment =
  bp_payment_index :: nat
  bp_payment_date :: DateTime
  total_payment :: real
  min_date :: "DateTime option"
  max_date :: "DateTime option"
  date_count :: real

text \<open>
  The test of \<open>calcAllTermPayments\<close> that sends a term to the blended calculation:
  \<open>model.prorated_first_period && model.periodic_escalation_rate > 0\<close>.
\<close>

definition usesBlendedPath :: "TermPaymentModel \<Rightarrow> bool" where
  "usesBlendedPath model =
     (prorated_first_period model
      \<and> (case periodic_escalation_rate model of None \<Rightarrow> False | Some r \<Rightarrow> r > 0))"

text \<open>
  \<open>calcBlendedPeriodicPaymentsForTerm\<close>, with \<open>utils.blendedEscalation\<close> as the argument
  \<open>blendedEscalation\<close>. \<open>None\<close> is the \<open>null\<close> the function returns. The second branch of
  the lag reads \<open>p._payment_index\<close>, which no payment has, so only the first payment can
  get a late date.
\<close>

definition calcBlendedPeriodicPaymentsForTerm ::
  "(DateTime \<Rightarrow> DateTime \<Rightarrow> bool \<Rightarrow> DateTime \<Rightarrow> real option \<Rightarrow> real option \<Rightarrow> string option
      \<Rightarrow> BlendedPayment list)
     \<Rightarrow> JupiterDoc \<Rightarrow> AgreementTerm \<Rightarrow> OpDetails option \<Rightarrow> TermPaymentModel list option
     \<Rightarrow> real option \<Rightarrow> Grantor list \<Rightarrow> PaymentEvent list option" where
  "calcBlendedPeriodicPaymentsForTerm blendedEscalation this t op_details paymentModels
       acres grantors =
     (if cancelled_by_ops t \<or> grantors = [] then None
      else case (termPaymentModel t paymentModels, start_date t, end_date t) of
        (Some model, Some t_start, Some t_end) \<Rightarrow>
          (let basePayment = periodicBasePayment (Some model) op_details
                 (cumulative_escalation_rate t) (cumulative_increase_amount t) acres;
               previousEscalationTerms =
                 filter (\<lambda>x. term_ordinal x < term_ordinal t \<and> payment_model x = payment_model t)
                   (agreement_terms this);
               escalationStart =
                 (case sort_key term_ordinal previousEscalationTerms of
                    [] \<Rightarrow> t_start
                  | first # _ \<Rightarrow> (case start_date first of Some d \<Rightarrow> d | None \<Rightarrow> t_start));
               blendedPayments = blendedEscalation t_start t_end (prorated_first_period model)
                 escalationStart (map_option (\<lambda>r. r / 100) (periodic_escalation_rate model))
                 basePayment (first_payment_start t)
           in Some (concat (map (\<lambda>p.
                (let late =
                   (if bp_payment_index p = 0
                       \<and> (\<not> extension t \<or> apply_payment_lag_to_extension model)
                    then lagDate (tpm_first_payment_lag model) (bp_payment_date p)
                    else None)
                 in map (\<lambda>g.
                      \<lparr>payment_source = ''Term Model'',
                       model_id = Some (tpm_id model),
                       payment_index = Some (bp_payment_index p),
                       payment_date = bp_payment_date p,
                       late_payment_date = late,
                       payment_type = Some ((case term_type t of Some s \<Rightarrow> s | None \<Rightarrow> ''undefined'')
                          @ (if extension t then '' (ext)'' else '''') @ '' Term Payment''),
                       payment_amount = total_payment p * blendedGrantorShare grantors g,
                       payee = (case tpm_payee model of Some n \<Rightarrow> n
                                | None \<Rightarrow> nicknameGrantor (grantor_lessor_name g)),
                       payment_period_start = min_date p,
                       payment_period_end = max_date p,
                       prorata_factor = Some (date_count p / real_of_int (daysInYear (bp_payment_date p))),
                       applicable_to_purchase = tpm_applicable_to_purchase model,
                       refundable = False,
                       after_outside_date = (case outside_date this of None \<Rightarrow> False
                                             | Some od \<Rightarrow> bp_payment_date p > od)\<rparr>)
                      grantors))
              blendedPayments)))
      | _ \<Rightarrow> None)"

subsection \<open>Amendment overlay\<close>

text \<open>
  The documents \<open>processAmendments\<close> selects for a base document, and the date they are
  sorted by, the first of five dates that is present. The loop stores that date on each
  amendment as \<open>sort_date\<close>, and an \<open>amendment_ordinal\<close> on those with an amendment date;
  both are the same at every call on the same collection and are not kept here.
\<close>

definition isAmendmentOf :: "JupiterDoc \<Rightarrow> JupiterDoc \<Rightarrow> bool" where
  "isAmendmentOf this x =
     (truthyStr (agreement_group this)
      \<and> agreement_group x = agreement_group this
      \<and> (amendment_date x \<noteq> None \<or> letter_date x \<noteq> None \<or> deed_date x \<noteq> None
           \<or> payment_directive_date x \<noteq> None \<or> recorded_date x \<noteq> None)
      \<and> doc_id x \<noteq> doc_id this)"

definition sortDate :: "JupiterDoc \<Rightarrow> DateTime option" where
  "sortDate x =
     (case amendment_date x of Some d \<Rightarrow> Some d | None \<Rightarrow>
      (case letter_date x of Some d \<Rightarrow> Some d | None \<Rightarrow>
       (case deed_date x of Some d \<Rightarrow> Some d | None \<Rightarrow>
        (case payment_directive_date x of Some d \<Rightarrow> Some d | None \<Rightarrow> recorded_date x))))"

definition sortDateTs :: "JupiterDoc \<Rightarrow> int" where
  "sortDateTs x = (case sortDate x of Some d \<Rightarrow> d | None \<Rightarrow> 0)"

text \<open>
  The body of the \<open>for\<close> loop over the sorted amendments: every fact the amendment
  supplies overwrites the one of the base document, and its date payment models are
  pushed onto those of the base document.
\<close>

definition applyAmendment :: "JupiterDoc \<Rightarrow> JupiterDoc \<Rightarrow> JupiterDoc" where
  "applyAmendment this amendment =
     this\<lparr>effective_date :=
            (if effective_date amendment \<noteq> None then effective_date amendment
             else effective_date this),
          outside_date :=
            (if outside_date amendment \<noteq> None then outside_date amendment
             else outside_date this),
          property_description :=
            (if property_description amendment \<noteq> [] then property_description amendment
             else property_description this),
          jupiter_entity :=
            (if truthyStr (jupiter_entity amendment) then jupiter_entity amendment
             else jupiter_entity this),
          grantee :=
            (if truthyStr (grantee amendment) then grantee amendment else grantee this),
          grantor :=
            (if grantor amendment \<noteq> [] then grantor amendment else grantor this),
          full_purchase_price :=
            (if truthyNum (full_purchase_price amendment) then full_purchase_price amendment
             else full_purchase_price this),
          estimated_closing_date :=
            (if estimated_closing_date amendment \<noteq> None then estimated_closing_date amendment
             else estimated_closing_date this),
          date_purchased :=
            (if date_purchased amendment \<noteq> None then date_purchased amendment
             else date_purchased this),
          date_sold :=
            (if date_sold amendment \<noteq> None then date_sold amendment else date_sold this),
          agreement_terms :=
            (if agreement_terms amendment \<noteq> [] then agreement_terms amendment
             else agreement_terms this),
          term_payment_models :=
            (if term_payment_models amendment \<noteq> [] then term_payment_models amendment
             else term_payment_models this),
          doc_termination :=
            (if doc_termination amendment \<noteq> None then doc_termination amendment
             else doc_termination this),
          date_payment_models := date_payment_models this @ date_payment_models amendment,
          review_status :=
            (if truthyStr (review_status amendment) then review_status amendment
             else review_status this),
          review_status_doc_id :=
            (if truthyStr (review_status amendment) then Some (doc_id amendment)
             else review_status_doc_id this),
          review_status_instance_id :=
            (if truthyStr (review_status amendment) then review_status_instance_id amendment
             else review_status_instance_id this),
          review_status_value_instance_id :=
            (if truthyStr (review_status amendment)
             then review_status_value_instance_id amendment
             else review_status_value_instance_id this),
          review_status_notes :=
            (if truthyStr (review_status amendment) then review_status_notes amendment
             else review_status_notes this)\<rparr>"

text \<open>
  \<open>processAmendments\<close>: the base document after the call. A document without an
  effective date, or without amendments in the collection, is left as it is.
\<close>

definition processAmendments :: "JupiterDoc \<Rightarrow> JupiterDoc list \<Rightarrow> JupiterDoc" where
  "processAmendments this allDocs =
     (if effective_date this = None then this
      else
        (let found = filter (isAmendmentOf this) allDocs
         in if found = [] then this
            else
              (let sorted_amendments = sort_key sortDateTs found
               in (foldl applyAmendment this sorted_amendments)
                    \<lparr>amendments :=
                       Some (map doc_id
                         (filter (\<lambda>x. amendment_date x \<noteq> None) sorted_amendments))\<rparr>)))"

text \<open>
  The amendments the call folds into a base document, in the order of the fold; none
  for a document without an effective date.
\<close>

definition amendmentChain :: "JupiterDoc \<Rightarrow> JupiterDoc list \<Rightarrow> JupiterDoc list" where
  "amendmentChain this allDocs =
     (if effective_date this = None then []
      else sort_key sortDateTs (filter (isAmendmentOf this) allDocs))"

subsection \<open>Example documents\<close>

text \<open>
  A base agreement with one grantor on the default split, a purchase price of 100000
  and an estimated closing date, and date payment models that pay 1000 from 2024-01-01
  to 2025-06-01 at a given frequency.
\<close>

definition exGrantor :: "string \<Rightarrow> real option \<Rightarrow> Grantor" where
  "exGrantor name split = \<lparr>grantor_lessor_name = name, payment_split = split\<rparr>"

definition exDateModel :: "string \<Rightarrow> string option \<Rightarrow> DatePaymentModel" where
  "exDateModel ident freq =
     \<lparr>dpm_id = ident, date_one_time = None, date_begin = Some (localDate 2024 1 1),
      date_end = Some (localDate 2025 6 1), frequency = freq,
      dpm_payment_amount = Some 1000, dpm_increase_amount = None,
      dpm_periodic_escalation_rate = None, dpm_first_payment_lag = None,
      dpm_subsequent_payment_lag = None, dpm_payment_type = Some ''Option Payment'',
      dpm_payee = None, dpm_applicable_to_purchase = True, dpm_refundable = False\<rparr>"

definition exDoc :: JupiterDoc where
  "exDoc =
     \<lparr>doc_id = ''base'', agreement_group = Some ''OPT - Sunfield - Smith - 17'',
      project_id = Some ''17'', effective_date = Some (localDate 2024 1 1),
      amendment_date = None, letter_date = None, deed_date = None,
      payment_directive_date = None, recorded_date = None, outside_date = None,
      property_description = [], jupiter_entity = None, grantee = None,
      grantor = [exGrantor ''Smith Farms, LLC'' None],
      full_purchase_price = Some 100000,
      estimated_closing_date = Some (localDate 2026 1 1),
      date_purchased = None, date_sold = None,
      operational_details = exOps None None, total_controlled_acres = 0,
      agreement_terms = [], term_payment_models = [], doc_termination = None,
      date_payment_models = [], date_payments = [],
      review_status = None, review_status_doc_id = None, review_status_instance_id = None,
      review_status_value_instance_id = None, review_status_notes = None,
      amendments = None\<rparr>"

text \<open>A payment event of a given amount, applicable to the purchase price or not.\<close>

definition exEvent :: "real \<Rightarrow> bool \<Rightarrow> PaymentEvent" where
  "exEvent amount applicable =
     \<lparr>payment_source = ''Date Model'', model_id = None, payment_index = Some 0,
      payment_date = localDate 2024 1 1, late_payment_date = None, payment_type = None,
      payment_amount = amount, payee = ''Smith Farms'', payment_period_start = None,
      payment_period_end = None, prorata_factor = None, applicable_to_purchase = applicable,
      refundable = False, after_outside_date = False\<rparr>"

text \<open>
  An amendment of the base agreement, dated 2024-06-01, that changes the purchase price
  and brings one date payment model.
\<close>

definition exAmendment :: JupiterDoc where
  "exAmendment =
     exDoc\<lparr>doc_id := ''amendment-1'', effective_date := None,
           amendment_date := Some (localDate 2024 6 1), grantor := [],
           full_purchase_price := Some 120000, estimated_closing_date := None,
           date_payment_models := [exDateModel ''added'' (Some ''Annually'')]\<rparr>"

text \<open>
  A term and a term payment model that take the blended path (a pro-rated first period
  and a periodic escalation rate above 0), two grantors with explicit splits of 50 each,
  and a stand-in for the absent \<open>utils.blendedEscalation\<close> that returns one payment whose
  total is the base payment.
\<close>

definition exBlendedTerm :: AgreementTerm where
  "exBlendedTerm =
     (exTerm 1 ''Operations'' 1 ''Rent'' None None)
       \<lparr>start_date := Some (localDate 2024 1 1), end_date := Some (localDate 2024 12 31),
        cumulative_increase_amount := Some 0, cumulative_escalation_rate := Some 1\<rparr>"

definition exBlendedModel :: TermPaymentModel where
  "exBlendedModel =
     \<lparr>tpm_id = ''rent'', model_type = Some ''Rent'', payment_frequency = Some ''Annually'',
      minimum_payment = None, payment_per_mw = None, payment_per_mva = None,
      flat_payment_amount = Some 1000, payment_per_acre = None,
      periodic_escalation_rate = Some 2, periodic_escalation_frequency = Some ''Annually'',
      tpm_increase_amount = None, prorated_first_period = True,
      tpm_first_payment_lag = None, tpm_subsequent_payment_lag = None,
      apply_payment_lag_to_extension = False, tpm_payee = None,
      tpm_applicable_to_purchase = False\<rparr>"

definition exBlendedEscalation ::
  "DateTime \<Rightarrow> DateTime \<Rightarrow> bool \<Rightarrow> DateTime \<Rightarrow> real option \<Rightarrow> real option \<Rightarrow> string option
     \<Rightarrow> BlendedPayment list" where
  "exBlendedEscalation t_start t_end prorated escalationStart rate basePayment policy =
     [\<lparr>bp_payment_index = 0, bp_payment_date = t_start, total_payment = orZero basePayment,
       min_date = Some t_start, max_date = Some t_end, date_count = 366\<rparr>]"

text \<open>
  The base agreement after three date payments, two of them applicable to the purchase
  price, of 15000 and 5000.
\<close>

definition exPaid :: JupiterDoc where
  "exPaid = exDoc\<lparr>date_payments := [exEvent 15000 True, exEvent 700 False, exEvent 5000 True]\<rparr>"

text \<open>The paid base agreement with two grantors on explicit splits of 25 and 75.\<close>

definition exPaidSplit :: JupiterDoc where
  "exPaidSplit =
     exPaid\<lparr>grantor := [exGrantor ''Ann Smith'' (Some 25), exGrantor ''Bob Smith'' (Some 75)]\<rparr>"

text \<open>
  The base agreement with two grantors on explicit splits of 50 each and the blended
  term and model.
\<close>

definition exSplitDoc :: JupiterDoc where
  "exSplitDoc =
     exDoc\<lparr>grantor := [exGrantor ''Ann Smith'' (Some 50), exGrantor ''Bob Smith'' (Some 50)],
           agreement_terms := [exBlendedTerm],
           term_payment_models := [exBlendedModel]\<rparr>"

section \<open>Properties of the base payment, model resolution and period end\<close>

lemma Max5:
  "Max {a, b, c, d, e :: real} = max a (max b (max c (max d e)))"
  by simp

text \<open>
  C6. For a resolved payment model the periodic payment is the largest of
  \<open>minimum_payment\<close>, \<open>payment_per_mw \<times> mw\<close>,
  \<open>inverter_count \<times> inverter_rating \<times> payment_per_mva\<close>, \<open>flat_payment_amount\<close> and
  \<open>payment_per_acre \<times> controlled acres\<close>, every missing number read as 0, then
  \<open>(base + cumulative_increase_amount) \<times> cumulative_escalation_rate\<close>. With only
  \<open>payment_per_acre = 10\<close> set and 50 controlled acres, the base is exactly 500 before
  escalation, and stays 500 under no increase and an escalation factor of 1.
\<close>

theorem periodicBasePayment_formula:
  "periodicBasePayment (Some m) (Some od) (Some esc) (Some inc) acres =
     Some ((Max {orZero (minimum_payment m),
                 orZero (payment_per_mw m) * orZero (mw od),
                 orZero (inverter_count od) * orZero (inverter_rating_mvas od) * orZero (payment_per_mva m),
                 orZero (flat_payment_amount m),
                 orZero (payment_per_acre m) * orZero acres} + inc) * esc)
   \<and> (payment_per_acre m = Some 10 \<and> minimum_payment m = None \<and> payment_per_mw m = None
        \<and> payment_per_mva m = None \<and> flat_payment_amount m = None
      \<longrightarrow> maxBasePayment m (Some od) (Some 50) = 500
        \<and> periodicBasePayment (Some m) (Some od) (Some 1) (Some 0) (Some 50) = Some 500)"
  unfolding Max5 by (simp add: periodicBasePayment_def maxBasePayment_def)

theorem periodicBasePayment_formula_witness:
  "periodicBasePayment
     (Some \<lparr>tpm_id = ''m1'', model_type = Some ''Development'', payment_frequency = Some ''Annually'',
            minimum_payment = None, payment_per_mw = None, payment_per_mva = None,
            flat_payment_amount = None, payment_per_acre = Some 10,
            periodic_escalation_rate = None, periodic_escalation_frequency = None,
            tpm_increase_amount = None, prorated_first_period = False,
            tpm_first_payment_lag = None, tpm_subsequent_payment_lag = None,
            apply_payment_lag_to_extension = False, tpm_payee = None,
            tpm_applicable_to_purchase = False\<rparr>)
     (Some \<lparr>mw = Some 200, inverter_count = None, inverter_rating_mvas = None,
            construction_commencement = None, operations_commencement = None,
            commencement_date = None\<rparr>)
     (Some 1) (Some 0) (Some 50) = Some 500"
  using periodicBasePayment_formula
    [of "\<lparr>tpm_id = ''m1'', model_type = Some ''Development'', payment_frequency = Some ''Annually'',
            minimum_payment = None, payment_per_mw = None, payment_per_mva = None,
            flat_payment_amount = None, payment_per_acre = Some 10,
            periodic_escalation_rate = None, periodic_escalation_frequency = None,
            tpm_increase_amount = None, prorated_first_period = False,
            tpm_first_payment_lag = None, tpm_subsequent_payment_lag = None,
            apply_payment_lag_to_extension = False, tpm_payee = None,
            tpm_applicable_to_purchase = False\<rparr>"
        "\<lparr>mw = Some 200, inverter_count = None, inverter_rating_mvas = None,
            construction_commencement = None, operations_commencement = None,
            commencement_date = None\<rparr>" 1 0 "Some 50"]
  by simp

text \<open>
  C9. Resolution of the payment model of a term: with no model list or an empty one the
  result is null; a term that names a model through \<open>payment_model\<close>, or through
  \<open>term_type\<close> when \<open>payment_model\<close> is absent, gets the first model whose \<open>model_type\<close> is
  that name, which is a member of the list carrying that name; a term with neither name
  gets the sole model of a one-model agreement.
\<close>

theorem termPaymentModel_resolution:
  "termPaymentModel t None = None \<and> termPaymentModel t (Some []) = None
   \<and> (ms \<noteq> [] \<and> payment_model t = Some n \<and> n \<noteq> []
        \<longrightarrow> termPaymentModel t (Some ms) = List.find (\<lambda>x. model_type x = Some n) ms)
   \<and> (ms \<noteq> [] \<and> payment_model t = None \<and> term_type t = Some n \<and> n \<noteq> []
        \<longrightarrow> termPaymentModel t (Some ms) = List.find (\<lambda>x. model_type x = Some n) ms)
   \<and> ((payment_model t = Some n \<or> payment_model t = None \<and> term_type t = Some n) \<and> n \<noteq> []
        \<and> termPaymentModel t (Some ms) = Some r
        \<longrightarrow> r \<in> set ms \<and> model_type r = Some n)
   \<and> (payment_model t = None \<and> term_type t = None
        \<longrightarrow> termPaymentModel t (Some [sole]) = Some sole)"
proof -
  have named: "termPaymentModel t (Some ms) = List.find (\<lambda>x. model_type x = Some n) ms"
    if "ms \<noteq> []" "payment_model t = Some n \<or> payment_model t = None \<and> term_type t = Some n"
       "n \<noteq> []" for ms n
    using that by (cases ms) auto
  have member: "r \<in> set ms \<and> model_type r = Some n"
    if "payment_model t = Some n \<or> payment_model t = None \<and> term_type t = Some n" "n \<noteq> []"
       "termPaymentModel t (Some ms) = Some r" for ms n r
  proof -
    from that(3) have "ms \<noteq> []" by (cases ms) auto
    with named that have "List.find (\<lambda>x. model_type x = Some n) ms = Some r" by metis
    then show ?thesis by (auto simp: find_Some_iff)
  qed
  show ?thesis using named member by auto
qed

theorem termPaymentModel_resolution_witness:
  "termPaymentModel
     \<lparr>term_ordinal = 1, term_type = Some ''Operations'', extension = False,
      term_length_years = Some 5, payment_model = None, first_payment_start = None,
      increase_amount = None, escalation_rate = None, start_date = None, end_date = None,
      cancelled_by_ops = False, cumulative_increase_amount = None,
      cumulative_escalation_rate = None, periodic_payments = None\<rparr>
     (Some [\<lparr>tpm_id = ''m1'', model_type = Some ''Construction'', payment_frequency = None,
            minimum_payment = None, payment_per_mw = None, payment_per_mva = None,
            flat_payment_amount = Some 100, payment_per_acre = None,
            periodic_escalation_rate = None, periodic_escalation_frequency = None,
            tpm_increase_amount = None, prorated_first_period = False,
            tpm_first_payment_lag = None, tpm_subsequent_payment_lag = None,
            apply_payment_lag_to_extension = False, tpm_payee = None,
            tpm_applicable_to_purchase = False\<rparr>,
           \<lparr>tpm_id = ''m2'', model_type = Some ''Operations'', payment_frequency = None,
            minimum_payment = None, payment_per_mw = None, payment_per_mva = None,
            flat_payment_amount = Some 200, payment_per_acre = None,
            periodic_escalation_rate = None, periodic_escalation_frequency = None,
            tpm_increase_amount = None, prorated_first_period = False,
            tpm_first_payment_lag = None, tpm_subsequent_payment_lag = None,
            apply_payment_lag_to_extension = False, tpm_payee = None,
            tpm_applicable_to_purchase = False\<rparr>])
   = Some \<lparr>tpm_id = ''m2'', model_type = Some ''Operations'', payment_frequency = None,
            minimum_payment = None, payment_per_mw = None, payment_per_mva = None,
            flat_payment_amount = Some 200, payment_per_acre = None,
            periodic_escalation_rate = None, periodic_escalation_frequency = None,
            tpm_increase_amount = None, prorated_first_period = False,
            tpm_first_payment_lag = None, tpm_subsequent_payment_lag = None,
            apply_payment_lag_to_extension = False, tpm_payee = None,
            tpm_applicable_to_purchase = False\<rparr>"
  using termPaymentModel_resolution
    [of "\<lparr>term_ordinal = 1, term_type = Some ''Operations'', extension = False,
      term_length_years = Some 5, payment_model = None, first_payment_start = None,
      increase_amount = None, escalation_rate = None, start_date = None, end_date = None,
      cancelled_by_ops = False, cumulative_increase_amount = None,
      cumulative_escalation_rate = None, periodic_payments = None\<rparr>"
     "[\<lparr>tpm_id = ''m1'', model_type = Some ''Construction'', payment_frequency = None,
            minimum_payment = None, payment_per_mw = None, payment_per_mva = None,
            flat_payment_amount = Some 100, payment_per_acre = None,
            periodic_escalation_rate = None, periodic_escalation_frequency = None,
            tpm_increase_amount = None, prorated_first_period = False,
            tpm_first_payment_lag = None, tpm_subsequent_payment_lag = None,
            apply_payment_lag_to_extension = False, tpm_payee = None,
            tpm_applicable_to_purchase = False\<rparr>,
           \<lparr>tpm_id = ''m2'', model_type = Some ''Operations'', payment_frequency = None,
            minimum_payment = None, payment_per_mw = None, payment_per_mva = None,
            flat_payment_amount = Some 200, payment_per_acre = None,
            periodic_escalation_rate = None, periodic_escalation_frequency = None,
            tpm_increase_amount = None, prorated_first_period = False,
            tpm_first_payment_lag = None, tpm_subsequent_payment_lag = None,
            apply_payment_lag_to_extension = False, tpm_payee = None,
            tpm_applicable_to_purchase = False\<rparr>]" "''Operations''"]
  by simp

text \<open>
  C8, as amended. A period end that \<open>calcPaymentPeriodEnd\<close> returns never exceeds the
  term end. Under pro-rated alignment it is the earlier of the term end and, for
  "Annually", the 31st of December of the year of the start, for "Quarterly" the start
  plus 3 months minus 1 day, for "Monthly" the start plus 1 month minus 1 day. Under
  anniversary alignment it is the earlier of the term end and the start plus 1 year, 6
  months, 3 months or 1 month, minus 1 day, for "Annually", "Semiannually", "Quarterly"
  and "Monthly", and the term end for "Once per Term".
\<close>

theorem calcPaymentPeriodEnd_clamped:
  "(calcPaymentPeriodEnd start freq prorated term_end = Some e \<longrightarrow> e \<le> term_end)
   \<and> calcPaymentPeriodEnd start (Some ''Annually'') True term_end
       = Some (min term_end (localDate (yearOf start) 12 31))
   \<and> calcPaymentPeriodEnd start (Some ''Quarterly'') True term_end
       = Some (min term_end (plusDays (- 1) (plusMonths 3 start)))
   \<and> calcPaymentPeriodEnd start (Some ''Monthly'') True term_end
       = Some (min term_end (plusDays (- 1) (plusMonths 1 start)))
   \<and> calcPaymentPeriodEnd start (Some ''Annually'') False term_end
       = Some (min term_end (plusDays (- 1) (plusYears 1 start)))
   \<and> calcPaymentPeriodEnd start (Some ''Semiannually'') False term_end
       = Some (min term_end (plusDays (- 1) (plusMonths 6 start)))
   \<and> calcPaymentPeriodEnd start (Some ''Quarterly'') False term_end
       = Some (min term_end (plusDays (- 1) (plusMonths 3 start)))
   \<and> calcPaymentPeriodEnd start (Some ''Monthly'') False term_end
       = Some (min term_end (plusDays (- 1) (plusMonths 1 start)))
   \<and> calcPaymentPeriodEnd start (Some ''Once per Term'') False term_end = Some term_end"
proof -
  have bound: "calcPaymentPeriodEnd start freq prorated term_end = Some e \<longrightarrow> e \<le> term_end"
    by (auto simp: calcPaymentPeriodEnd_def split: option.splits if_splits)
  have clamp: "(if n \<ge> term_end then Some term_end else Some n) = Some (min term_end n)"
    for n :: int
    by (simp add: min_def)
  have cases: "calcPaymentPeriodEnd start f p term_end = Some (min term_end n)"
    if "naturalPeriodEnd start f p term_end = Some n" for f p n
    using that by (simp add: calcPaymentPeriodEnd_def clamp)
  show ?thesis
    by (intro conjI bound cases) (simp_all add: naturalPeriodEnd_def calcPaymentPeriodEnd_def)
qed

theorem calcPaymentPeriodEnd_clamped_witness:
  "calcPaymentPeriodEnd (localDate 2024 11 15) (Some ''Monthly'') False (localDate 2024 11 30)
     = Some (localDate 2024 11 30)
   \<and> localDate 2024 11 30 \<le> localDate 2024 11 30
   \<and> min (localDate 2024 11 30) (plusDays (- 1) (plusMonths 1 (localDate 2024 11 15)))
     = localDate 2024 11 30
   \<and> calcPaymentPeriodEnd (localDate 2024 1 15) (Some ''Quarterly'') True (localDate 2024 12 31)
     = Some (localDate 2024 4 14)
   \<and> calcPaymentPeriodEnd (localDate 2024 1 15) (Some ''Annually'') True (localDate 2025 6 30)
     = Some (localDate 2024 12 31)
   \<and> calcPaymentPeriodEnd (localDate 2024 1 15) (Some ''Semiannually'') False (localDate 2025 6 30)
     = Some (localDate 2024 7 14)"
proof -
  have m1: "min (localDate 2024 11 30) (plusDays (- 1) (plusMonths 1 (localDate 2024 11 15)))
     = localDate 2024 11 30"
    by code_simp
  have m2: "min (localDate 2024 12 31) (plusDays (- 1) (plusMonths 3 (localDate 2024 1 15)))
     = localDate 2024 4 14"
    by code_simp
  have m3: "min (localDate 2025 6 30) (localDate (yearOf (localDate 2024 1 15)) 12 31)
     = localDate 2024 12 31"
    by code_simp
  have m4: "min (localDate 2025 6 30) (plusDays (- 1) (plusMonths 6 (localDate 2024 1 15)))
     = localDate 2024 7 14"
    by code_simp
  note a = calcPaymentPeriodEnd_clamped
    [of "localDate 2024 11 15" "Some ''Monthly''" False "localDate 2024 11 30"
        "localDate 2024 11 30"]
  note b = calcPaymentPeriodEnd_clamped [of "localDate 2024 1 15" _ _ "localDate 2024 12 31"]
  note c = calcPaymentPeriodEnd_clamped [of "localDate 2024 1 15" _ _ "localDate 2025 6 30"]
  have r1: "calcPaymentPeriodEnd (localDate 2024 11 15) (Some ''Monthly'') False
      (localDate 2024 11 30) = Some (localDate 2024 11 30)"
    using a m1 by (simp only:)
  with a have le: "localDate 2024 11 30 \<le> localDate 2024 11 30"
    by (elim conjE) (erule mp)
  have r2: "calcPaymentPeriodEnd (localDate 2024 1 15) (Some ''Quarterly'') True
      (localDate 2024 12 31) = Some (localDate 2024 4 14)"
    using b m2 by (simp only:)
  have r3: "calcPaymentPeriodEnd (localDate 2024 1 15) (Some ''Annually'') True
      (localDate 2025 6 30) = Some (localDate 2024 12 31)"
    using c m3 by (simp only:)
  have r4: "calcPaymentPeriodEnd (localDate 2024 1 15) (Some ''Semiannually'') False
      (localDate 2025 6 30) = Some (localDate 2024 7 14)"
    using c m4 by (simp only:)
  from r1 le m1 r2 r3 r4 show ?thesis by (intro conjI)
qed

text \<open>
  C8, as stated, fails. From a start of 2024-01-15, a pro-rated "Semiannually" or "Once
  per Term" period with a term end of 2024-01-31, which lies before the end of any such
  period, returns no date where the claim has the term end returned; and the pro-rated
  "Quarterly" period ends on 2024-04-14, the start plus 3 months minus 1 day, not on the
  calendar quarter end 2024-03-31 that the claim names as the natural period end.
\<close>

theorem calcPaymentPeriodEnd_counterexample:
  "calcPaymentPeriodEnd (localDate 2024 1 15) (Some ''Semiannually'') True (localDate 2024 1 31)
     = None
   \<and> calcPaymentPeriodEnd (localDate 2024 1 15) (Some ''Once per Term'') True (localDate 2024 1 31)
     = None
   \<and> calcPaymentPeriodEnd (localDate 2024 1 15) (Some ''Quarterly'') True (localDate 2024 12 31)
     = Some (localDate 2024 4 14)
   \<and> localDate 2024 3 31 < localDate 2024 4 14
   \<and> localDate 2024 4 14 < localDate 2024 12 31"
  by code_simp

text \<open>
  A date is returned for the three frequencies the pro-rated branch handles and the five
  the anniversary branch handles; every other combination returns \<open>undefined\<close>.
\<close>

lemma calcPaymentPeriodEnd_defined:
  "(calcPaymentPeriodEnd start freq prorated term_end \<noteq> None) =
     (if prorated
      then freq \<in> {Some ''Annually'', Some ''Quarterly'', Some ''Monthly''}
      else freq \<in> {Some ''Annually'', Some ''Semiannually'', Some ''Quarterly'',
                          Some ''Monthly'', Some ''Once per Term''})"
  by (simp add: calcPaymentPeriodEnd_def naturalPeriodEnd_def split: option.splits)

section \<open>Properties of the term date resolver\<close>

lemma foldl_add_sum_list:
  "foldl (\<lambda>acc x. acc + f x) a xs = a + sum_list (map f xs)" for a :: real
  by (induction xs arbitrary: a) simp_all

lemma foldl_mult_prod_list:
  "foldl (\<lambda>acc x. acc * f x) a xs = a * prod_list (map f xs)" for a :: real
  by (induction xs arbitrary: a) simp_all

lemma cumulativeIncrease_sum:
  "cumulativeIncrease ts t =
     sum_list (map (\<lambda>x. orZero (increase_amount x))
       (filter (\<lambda>x. term_ordinal x \<le> term_ordinal t \<and> payment_model x = payment_model t) ts))"
  by (simp add: cumulativeIncrease_def foldl_add_sum_list)

lemma cumulativeEscalation_prod:
  "cumulativeEscalation ts t =
     prod_list (map (\<lambda>x. 1 + orZero (escalation_rate x) / 100)
       (filter (\<lambda>x. term_ordinal x \<le> term_ordinal t \<and> payment_model x = payment_model t) ts))"
  by (simp add: cumulativeEscalation_def foldl_mult_prod_list)

lemma cohort_static:
  "map f (filter (\<lambda>x. term_ordinal x \<le> term_ordinal t \<and> payment_model x = payment_model t) ts)
   = map (\<lambda>s. g s) (filter (\<lambda>s. fst s \<le> fst (termStatic t) \<and> fst (snd s) = fst (snd (termStatic t))) (map termStatic ts))"
  if "\<And>x. f x = g (termStatic x)"
  using that by (induction ts) (simp_all add: termStatic_def)

lemma cumulativeIncrease_cong:
  assumes "map termStatic ts' = map termStatic ts" "termStatic t' = termStatic t"
  shows "cumulativeIncrease ts' t' = cumulativeIncrease ts t"
  unfolding cumulativeIncrease_sum
  using assms
  by (simp add: cohort_static[where g = "\<lambda>s. orZero (fst (snd (snd s)))"] termStatic_def)

lemma cumulativeEscalation_cong:
  assumes "map termStatic ts' = map termStatic ts" "termStatic t' = termStatic t"
  shows "cumulativeEscalation ts' t' = cumulativeEscalation ts t"
  unfolding cumulativeEscalation_prod
  using assms
  by (simp add: cohort_static[where g = "\<lambda>s. 1 + orZero (snd (snd (snd s))) / 100"] termStatic_def)

lemma termDates_start:
  assumes "termDates pd ed od tm ts i = Some (start, cancel, end1)"
  shows "termStartDate ed od ts i = Some start"
proof (cases "termStartDate ed od ts i")
  case None
  with assms show ?thesis by (simp add: termDates_def Let_def)
next
  case (Some s)
  with assms show ?thesis
    by (simp add: termDates_def Let_def split: option.splits prod.splits)
qed

lemma termDates_cong:
  assumes "term_type (ts' ! i) = term_type (ts ! i)"
    "term_length_years (ts' ! i) = term_length_years (ts ! i)"
    "termStartDate ed od ts' i = termStartDate ed od ts i"
  shows "termDates pd ed od tm ts' i = termDates pd ed od tm ts i"
  unfolding termDates_def Let_def assms by (rule refl)

lemma resolveTerm_SomeE:
  assumes "resolveTerm pd ed od tm ts i = Some t'"
  obtains start cancel end1 where
    "termDates pd ed od tm ts i = Some (start, cancel, end1)"
    "t' = (ts ! i)\<lparr>start_date := Some start, end_date := Some end1,
            cancelled_by_ops := (if cancel then True else cancelled_by_ops (ts ! i)),
            cumulative_increase_amount := Some (cumulativeIncrease ts (ts ! i)),
            cumulative_escalation_rate := Some (cumulativeEscalation ts (ts ! i))\<rparr>"
proof (cases "termDates pd ed od tm ts i")
  case None
  with assms show ?thesis by (simp add: resolveTerm_def Let_def)
next
  case (Some x)
  obtain start cancel end1 where x: "x = (start, cancel, end1)" by (cases x)
  from assms Some x
  have "t' = (ts ! i)\<lparr>start_date := Some start, end_date := Some end1,
            cancelled_by_ops := (if cancel then True else cancelled_by_ops (ts ! i)),
            cumulative_increase_amount := Some (cumulativeIncrease ts (ts ! i)),
            cumulative_escalation_rate := Some (cumulativeEscalation ts (ts ! i))\<rparr>"
    by (simp add: resolveTerm_def Let_def)
  with Some x that show ?thesis by blast
qed

lemma resolveTerm_SomeD:
  assumes "resolveTerm pd ed od tm ts i = Some t'"
  shows "termStatic t' = termStatic (ts ! i)"
    and "term_type t' = term_type (ts ! i)"
    and "extension t' = extension (ts ! i)"
    and "term_length_years t' = term_length_years (ts ! i)"
    and "start_date t' = termStartDate ed od ts i"
    and "start_date t' \<noteq> None"
    and "end_date t' \<noteq> None"
    and "cumulative_increase_amount t' = Some (cumulativeIncrease ts (ts ! i))"
    and "cumulative_escalation_rate t' = Some (cumulativeEscalation ts (ts ! i))"
proof -
  from assms obtain start cancel end1 where
    td: "termDates pd ed od tm ts i = Some (start, cancel, end1)" and
    t': "t' = (ts ! i)\<lparr>start_date := Some start, end_date := Some end1,
            cancelled_by_ops := (if cancel then True else cancelled_by_ops (ts ! i)),
            cumulative_increase_amount := Some (cumulativeIncrease ts (ts ! i)),
            cumulative_escalation_rate := Some (cumulativeEscalation ts (ts ! i))\<rparr>"
    by (rule resolveTerm_SomeE)
  note s = termDates_start[OF td]
  show "termStatic t' = termStatic (ts ! i)" by (simp add: t' termStatic_def)
  show "term_type t' = term_type (ts ! i)" by (simp add: t')
  show "extension t' = extension (ts ! i)" by (simp add: t')
  show "term_length_years t' = term_length_years (ts ! i)" by (simp add: t')
  show "start_date t' = termStartDate ed od ts i" by (simp add: t' s)
  show "start_date t' \<noteq> None" by (simp add: t')
  show "end_date t' \<noteq> None" by (simp add: t')
  show "cumulative_increase_amount t' = Some (cumulativeIncrease ts (ts ! i))" by (simp add: t')
  show "cumulative_escalation_rate t' = Some (cumulativeEscalation ts (ts ! i))" by (simp add: t')
qed

lemma resolveTerm_termInput:
  assumes "resolveTerm pd ed od tm ts i = Some t'"
  shows "termInput t' = termInput (ts ! i)"
proof -
  from assms obtain start cancel end1 where
    t': "t' = (ts ! i)\<lparr>start_date := Some start, end_date := Some end1,
            cancelled_by_ops := (if cancel then True else cancelled_by_ops (ts ! i)),
            cumulative_increase_amount := Some (cumulativeIncrease ts (ts ! i)),
            cumulative_escalation_rate := Some (cumulativeEscalation ts (ts ! i))\<rparr>"
    by (rule resolveTerm_SomeE)
  show ?thesis by (simp add: t' termInput_def)
qed

lemma map_termStatic_update:
  assumes "i < length ts" "termStatic t' = termStatic (ts ! i)"
  shows "map termStatic (ts[i := t']) = map termStatic ts"
  using assms by (simp add: map_update list_update_same_conv)

lemma map_termInput_update:
  assumes "i < length ts" "termInput t' = termInput (ts ! i)"
  shows "map termInput (ts[i := t']) = map termInput ts"
  using assms by (simp add: map_update list_update_same_conv)

lemma termStartDate_cong:
  assumes "term_type (ts' ! i) = term_type (ts ! i)" "extension (ts' ! i) = extension (ts ! i)"
    "i > 0 \<Longrightarrow> end_date (ts' ! (i - 1)) = end_date (ts ! (i - 1))"
  shows "termStartDate ed od ts' i = termStartDate ed od ts i"
proof (cases "i = 0")
  case True
  show ?thesis
    unfolding termStartDate_def Let_def assms(1,2) by (simp only: True simp_thms if_True)
next
  case False
  with assms(3) have e: "end_date (ts' ! (i - 1)) = end_date (ts ! (i - 1))" by simp
  show ?thesis unfolding termStartDate_def Let_def assms(1,2) e by (rule refl)
qed

lemma resolveTerm_cong:
  assumes a: "ts' ! i = ts ! i"
    and b: "i > 0 \<Longrightarrow> end_date (ts' ! (i - 1)) = end_date (ts ! (i - 1))"
    and c: "map termStatic ts' = map termStatic ts"
  shows "resolveTerm pd ed od tm ts' i = resolveTerm pd ed od tm ts i"
proof -
  have s: "termStartDate ed od ts' i = termStartDate ed od ts i"
    using termStartDate_cong[of ts' i ts, OF _ _ b] a by simp
  have td: "termDates pd ed od tm ts' i = termDates pd ed od tm ts i"
    using termDates_cong[of ts' i ts, OF _ _ s] a by simp
  have ci: "cumulativeIncrease ts' (ts ! i) = cumulativeIncrease ts (ts ! i)"
    using cumulativeIncrease_cong[OF c] by simp
  have ce: "cumulativeEscalation ts' (ts ! i) = cumulativeEscalation ts (ts ! i)"
    using cumulativeEscalation_cong[OF c] by simp
  show ?thesis unfolding resolveTerm_def Let_def a td ci ce by (rule refl)
qed

lemma resolveTerm_idem:
  assumes r: "resolveTerm pd ed od tm ts i = Some t'" and i: "i < length ts"
  shows "resolveTerm pd ed od tm (ts[i := t']) i = Some t'"
proof -
  from r obtain start cancel end1 where
    td: "termDates pd ed od tm ts i = Some (start, cancel, end1)" and
    t': "t' = (ts ! i)\<lparr>start_date := Some start, end_date := Some end1,
            cancelled_by_ops := (if cancel then True else cancelled_by_ops (ts ! i)),
            cumulative_increase_amount := Some (cumulativeIncrease ts (ts ! i)),
            cumulative_escalation_rate := Some (cumulativeEscalation ts (ts ! i))\<rparr>"
    by (rule resolveTerm_SomeE)
  note d = resolveTerm_SomeD[OF r]
  have n: "ts[i := t'] ! i = t'" using i by simp
  have st: "map termStatic (ts[i := t']) = map termStatic ts"
    using map_termStatic_update[OF i d(1)] .
  have e: "end_date (ts[i := t'] ! (i - 1)) = end_date (ts ! (i - 1))" if "i > 0"
    using that by simp
  have s: "termStartDate ed od (ts[i := t']) i = termStartDate ed od ts i"
    using termStartDate_cong[of "ts[i := t']" i ts, OF _ _ e] n d(2,3) by simp
  have td': "termDates pd ed od tm (ts[i := t']) i = Some (start, cancel, end1)"
    using termDates_cong[of "ts[i := t']" i ts, OF _ _ s] n d(2,4) td by simp
  have ci: "cumulativeIncrease (ts[i := t']) t' = cumulativeIncrease ts (ts ! i)"
    using cumulativeIncrease_cong[OF st d(1)] .
  have ce: "cumulativeEscalation (ts[i := t']) t' = cumulativeEscalation ts (ts ! i)"
    using cumulativeEscalation_cong[OF st d(1)] .
  have "resolveTerm pd ed od tm (ts[i := t']) i =
      Some (t'\<lparr>start_date := Some start, end_date := Some end1,
            cancelled_by_ops := (if cancel then True else cancelled_by_ops t'),
            cumulative_increase_amount := Some (cumulativeIncrease ts (ts ! i)),
            cumulative_escalation_rate := Some (cumulativeEscalation ts (ts ! i))\<rparr>)"
    unfolding resolveTerm_def Let_def n td' ci ce by simp
  also have "\<dots> = Some t'"
    by (cases cancel) (simp_all add: t')
  finally show ?thesis .
qed

lemma getEarliestDateTime_Some:
  "getEarliestDateTime a (Some b) = Some (case a of None \<Rightarrow> b | Some x \<Rightarrow> min x b)"
  by (cases a) simp_all

lemma resolveTerm_defined:
  assumes "ed \<noteq> None \<or> commencement_date od \<noteq> None"
    "i > 0 \<Longrightarrow> end_date (ts ! (i - 1)) \<noteq> None"
  shows "\<exists>t'. resolveTerm pd ed od tm ts i = Some t'"
proof -
  have "termStartDate ed od ts i \<noteq> None"
  proof (cases "i = 0")
    case True
    with assms(1) show ?thesis
      by (auto simp: termStartDate_def Let_def split: option.splits)
  next
    case False
    with assms(2) obtain e where "end_date (ts ! (i - 1)) = Some e" by auto
    with False show ?thesis
      by (auto simp: termStartDate_def Let_def)
  qed
  then obtain s where s: "termStartDate ed od ts i = Some s" by auto
  have "termDates pd ed od tm ts i \<noteq> None"
    by (simp add: termDates_def Let_def s getEarliestDateTime_Some split: prod.splits)
  then obtain x where x: "termDates pd ed od tm ts i = Some x" by auto
  obtain start cancel end1 where "x = (start, cancel, end1)" by (cases x)
  with x show ?thesis by (simp add: resolveTerm_def Let_def)
qed

lemma termsLoop_invariant:
  assumes g: "ed \<noteq> None \<or> commencement_date od \<noteq> None"
  shows "k \<le> n \<Longrightarrow> length ts = n
    \<Longrightarrow> (\<forall>j<k. resolveTerm pd ed od tm ts j = Some (ts ! j))
    \<Longrightarrow> \<exists>res. termsLoop pd ed od tm [k..<n] ts = Some res \<and> length res = n
          \<and> map termInput res = map termInput ts
          \<and> (\<forall>j<n. resolveTerm pd ed od tm res j = Some (res ! j))"
proof (induction "n - k" arbitrary: k ts)
  case 0
  then show ?case by simp
next
  case (Suc d)
  then have kn: "k < n" by simp
  have prev: "end_date (ts ! (k - 1)) \<noteq> None" if "k > 0"
  proof -
    from that Suc.prems(3) have "resolveTerm pd ed od tm ts (k - 1) = Some (ts ! (k - 1))" by simp
    from resolveTerm_SomeD(7)[OF this] show ?thesis .
  qed
  from resolveTerm_defined[OF g prev] obtain t' where
    t': "resolveTerm pd ed od tm ts k = Some t'" by blast
  let ?ts = "ts[k := t']"
  have kl: "k < length ts" using kn Suc.prems(2) by simp
  have st: "map termStatic ?ts = map termStatic ts"
    using map_termStatic_update[OF kl resolveTerm_SomeD(1)[OF t']] .
  have inp: "map termInput ?ts = map termInput ts"
    using map_termInput_update[OF kl resolveTerm_termInput[OF t']] .
  have fixed: "\<forall>j<Suc k. resolveTerm pd ed od tm ?ts j = Some (?ts ! j)"
  proof (intro allI impI)
    fix j assume j: "j < Suc k"
    show "resolveTerm pd ed od tm ?ts j = Some (?ts ! j)"
    proof (cases "j = k")
      case True
      with resolveTerm_idem[OF t' kl] kl show ?thesis by simp
    next
      case False
      with j have jk: "j < k" by simp
      then have a: "?ts ! j = ts ! j" by simp
      have b: "end_date (?ts ! (j - 1)) = end_date (ts ! (j - 1))" using jk by simp
      from resolveTerm_cong[OF a b st] Suc.prems(3) jk a show ?thesis by simp
    qed
  qed
  have "d = n - Suc k" using Suc.hyps(2) by simp
  from Suc.hyps(1)[OF this _ _ fixed] kn Suc.prems(2)
  obtain res where res: "termsLoop pd ed od tm [Suc k..<n] ?ts = Some res" "length res = n"
      "map termInput res = map termInput ?ts"
      "\<forall>j<n. resolveTerm pd ed od tm res j = Some (res ! j)"
    by auto
  have "termsLoop pd ed od tm [k..<n] ts = termsLoop pd ed od tm [Suc k..<n] ?ts"
    using kn t' by (simp add: upt_conv_Cons)
  with res inp show ?case by simp
qed

lemma calcAgreementTermDates_resolved:
  assumes g: "ed \<noteq> None \<or> commencement_date od \<noteq> None"
  shows "\<exists>res. calcAgreementTermDates pd terms ed od tm = Some res
     \<and> length res = length terms
     \<and> map termInput res = map termInput (sort_key term_ordinal terms)
     \<and> (\<forall>j<length res. resolveTerm pd ed od tm res j = Some (res ! j))"
proof -
  from termsLoop_invariant[OF g, of 0 "length (sort_key term_ordinal terms)" "sort_key term_ordinal terms" pd tm]
  obtain res where "termsLoop pd ed od tm [0..<length (sort_key term_ordinal terms)] (sort_key term_ordinal terms) = Some res"
    "length res = length (sort_key term_ordinal terms)"
    "map termInput res = map termInput (sort_key term_ordinal terms)"
    "\<forall>j<length (sort_key term_ordinal terms). resolveTerm pd ed od tm res j = Some (res ! j)"
    by auto
  with g show ?thesis
    by (auto simp: calcAgreementTermDates_def Let_def)
qed

lemma termStatic_termInput: "termStatic (termInput t) = termStatic t"
  by (simp add: termStatic_def termInput_def)

lemma map_termStatic_of_termInput:
  assumes "map termInput xs = map termInput ys"
  shows "map termStatic xs = map termStatic ys"
proof -
  have "map termStatic xs = map termStatic (map termInput xs)"
    by (simp add: termStatic_termInput)
  also have "\<dots> = map termStatic (map termInput ys)" using assms by simp
  also have "\<dots> = map termStatic ys" by (simp add: termStatic_termInput)
  finally show ?thesis .
qed

lemma map_term_ordinal_of_termInput:
  assumes "map termInput xs = map termInput ys"
  shows "map term_ordinal xs = map term_ordinal ys"
proof -
  have "map term_ordinal xs = map term_ordinal (map termInput xs)"
    by (simp add: termInput_def)
  also have "\<dots> = map term_ordinal (map termInput ys)" using assms by simp
  also have "\<dots> = map term_ordinal ys" by (simp add: termInput_def)
  finally show ?thesis .
qed

text \<open>
  C1. With an effective date or a commencement date, the resolver returns the terms in
  the order of \<open>term_ordinal\<close>, with their input fields as given, and the start date of
  each term follows this precedence: a non-extension "Construction" term takes the
  construction commencement when there is one, a non-extension "Operations" term the
  operations commencement when there is one, and every other term starts one day after
  the end date of the term before it, the first term at the commencement date or else
  the effective date.
\<close>

theorem calcAgreementTermDates_start_dates:
  assumes "effectiveDate \<noteq> None \<or> commencement_date opDetails \<noteq> None"
  shows "\<exists>res. calcAgreementTermDates plusDuration terms effectiveDate opDetails termination = Some res
     \<and> length res = length terms
     \<and> map termInput res = map termInput (sort_key term_ordinal terms)
     \<and> sorted (map term_ordinal res)
     \<and> (\<forall>i<length res.
          start_date (res ! i) \<noteq> None \<and>
          start_date (res ! i) =
            (if term_type (res ! i) = Some ''Construction'' \<and> \<not> extension (res ! i)
                \<and> construction_commencement opDetails \<noteq> None
             then construction_commencement opDetails
             else if term_type (res ! i) = Some ''Operations'' \<and> \<not> extension (res ! i)
                \<and> operations_commencement opDetails \<noteq> None
             then operations_commencement opDetails
             else if i = 0
             then (case commencement_date opDetails of Some c \<Rightarrow> Some c | None \<Rightarrow> effectiveDate)
             else map_option (plusDays 1) (end_date (res ! (i - 1)))))"
proof -
  from calcAgreementTermDates_resolved[OF assms, of plusDuration terms "termination"]
  obtain res where res:
    "calcAgreementTermDates plusDuration terms effectiveDate opDetails termination = Some res"
    "length res = length terms"
    "map termInput res = map termInput (sort_key term_ordinal terms)"
    "\<forall>j<length res. resolveTerm plusDuration effectiveDate opDetails termination res j = Some (res ! j)"
    by blast
  have srt: "sorted (map term_ordinal res)"
    using map_term_ordinal_of_termInput[OF res(3)] by simp
  have starts: "start_date (res ! i) \<noteq> None \<and>
          start_date (res ! i) =
            (if term_type (res ! i) = Some ''Construction'' \<and> \<not> extension (res ! i)
                \<and> construction_commencement opDetails \<noteq> None
             then construction_commencement opDetails
             else if term_type (res ! i) = Some ''Operations'' \<and> \<not> extension (res ! i)
                \<and> operations_commencement opDetails \<noteq> None
             then operations_commencement opDetails
             else if i = 0
             then (case commencement_date opDetails of Some c \<Rightarrow> Some c | None \<Rightarrow> effectiveDate)
             else map_option (plusDays 1) (end_date (res ! (i - 1))))" if "i < length res" for i
  proof -
    from res(4) that
    have r: "resolveTerm plusDuration effectiveDate opDetails termination res i = Some (res ! i)"
      by simp
    note d = resolveTerm_SomeD[OF r]
    from d(5) d(6) show ?thesis
      by (auto simp: termStartDate_def Let_def split: option.splits)
  qed
  from res(1,2,3) srt starts show ?thesis by blast
qed

text \<open>
  C7. After resolution, the cumulative escalation rate of a term is the product of
  \<open>1 + escalation_rate / 100\<close>, and its cumulative increase amount the sum of
  \<open>increase_amount\<close>, over the terms in ordinal order whose \<open>payment_model\<close> equals that
  of the term and whose \<open>term_ordinal\<close> is at most its own, a missing rate or amount
  counting as 0.
\<close>

theorem cumulative_cohort_fold:
  assumes "effectiveDate \<noteq> None \<or> commencement_date opDetails \<noteq> None"
    and "calcAgreementTermDates plusDuration terms effectiveDate opDetails termination = Some res"
    and "i < length res"
  shows "cumulative_escalation_rate (res ! i) =
           Some (prod_list (map (\<lambda>x. 1 + orZero (escalation_rate x) / 100)
             (filter (\<lambda>x. term_ordinal x \<le> term_ordinal (res ! i) \<and> payment_model x = payment_model (res ! i))
                (sort_key term_ordinal terms))))
       \<and> cumulative_increase_amount (res ! i) =
           Some (sum_list (map (\<lambda>x. orZero (increase_amount x))
             (filter (\<lambda>x. term_ordinal x \<le> term_ordinal (res ! i) \<and> payment_model x = payment_model (res ! i))
                (sort_key term_ordinal terms))))"
proof -
  from calcAgreementTermDates_resolved[OF assms(1), of plusDuration terms "termination"] assms(2)
  have inp: "map termInput res = map termInput (sort_key term_ordinal terms)"
    and fixed: "\<forall>j<length res. resolveTerm plusDuration effectiveDate opDetails termination res j = Some (res ! j)"
    by auto
  from fixed assms(3)
  have r: "resolveTerm plusDuration effectiveDate opDetails termination res i = Some (res ! i)"
    by simp
  note d = resolveTerm_SomeD[OF r]
  note st = map_termStatic_of_termInput[OF inp]
  have "cumulativeEscalation res (res ! i) = cumulativeEscalation (sort_key term_ordinal terms) (res ! i)"
    using cumulativeEscalation_cong[OF st] by simp
  moreover have "cumulativeIncrease res (res ! i) = cumulativeIncrease (sort_key term_ordinal terms) (res ! i)"
    using cumulativeIncrease_cong[OF st] by simp
  ultimately show ?thesis
    using d(8,9) by (simp add: cumulativeEscalation_prod cumulativeIncrease_sum)
qed

text \<open>
  C10, as amended. Without an effective date and without a commencement date the
  resolver leaves the terms as they are. With either of them every term gets a start
  date and an end date. With no effective date and a commencement date, the first term
  of the ordinal sequence starts at that commencement date unless an operational
  milestone overrides it; a later term that no milestone overrides starts one day after
  the end of the term before it, never at the commencement date as such.
\<close>

theorem calcAgreementTermDates_guard:
  "(effectiveDate = None \<and> commencement_date opDetails = None
      \<longrightarrow> calcAgreementTermDates plusDuration terms effectiveDate opDetails termination = Some terms)
   \<and> (effectiveDate \<noteq> None \<or> commencement_date opDetails \<noteq> None
      \<longrightarrow> (\<exists>res. calcAgreementTermDates plusDuration terms effectiveDate opDetails termination = Some res
            \<and> length res = length terms
            \<and> (\<forall>t \<in> set res. start_date t \<noteq> None \<and> end_date t \<noteq> None)))
   \<and> (effectiveDate = None \<and> commencement_date opDetails = Some c
        \<and> calcAgreementTermDates plusDuration terms effectiveDate opDetails termination = Some res
        \<and> res \<noteq> []
        \<and> \<not> (term_type (res ! 0) = Some ''Construction'' \<and> \<not> extension (res ! 0)
                \<and> construction_commencement opDetails \<noteq> None)
        \<and> \<not> (term_type (res ! 0) = Some ''Operations'' \<and> \<not> extension (res ! 0)
                \<and> operations_commencement opDetails \<noteq> None)
      \<longrightarrow> start_date (res ! 0) = Some c)
   \<and> ((effectiveDate \<noteq> None \<or> commencement_date opDetails \<noteq> None)
        \<and> calcAgreementTermDates plusDuration terms effectiveDate opDetails termination = Some res
        \<and> 0 < i \<and> i < length res
        \<and> \<not> (term_type (res ! i) = Some ''Construction'' \<and> \<not> extension (res ! i)
                \<and> construction_commencement opDetails \<noteq> None)
        \<and> \<not> (term_type (res ! i) = Some ''Operations'' \<and> \<not> extension (res ! i)
                \<and> operations_commencement opDetails \<noteq> None)
      \<longrightarrow> start_date (res ! i) = map_option (plusDays 1) (end_date (res ! (i - 1))))"
proof (intro conjI impI)
  assume "effectiveDate = None \<and> commencement_date opDetails = None"
  then show "calcAgreementTermDates plusDuration terms effectiveDate opDetails termination = Some terms"
    by (simp add: calcAgreementTermDates_def)
next
  assume g: "effectiveDate \<noteq> None \<or> commencement_date opDetails \<noteq> None"
  from calcAgreementTermDates_resolved[OF g, of plusDuration terms "termination"]
  obtain r where r:
    "calcAgreementTermDates plusDuration terms effectiveDate opDetails termination = Some r"
    "length r = length terms"
    "\<forall>j<length r. resolveTerm plusDuration effectiveDate opDetails termination r j = Some (r ! j)"
    by blast
  have "start_date t \<noteq> None \<and> end_date t \<noteq> None" if "t \<in> set r" for t
  proof -
    from that obtain j where j: "j < length r" "r ! j = t" by (auto simp: in_set_conv_nth)
    with r(3) have "resolveTerm plusDuration effectiveDate opDetails termination r j = Some t" by simp
    from resolveTerm_SomeD(6,7)[OF this] show ?thesis by simp
  qed
  with r(1,2)
  show "\<exists>res. calcAgreementTermDates plusDuration terms effectiveDate opDetails termination = Some res
            \<and> length res = length terms
            \<and> (\<forall>t \<in> set res. start_date t \<noteq> None \<and> end_date t \<noteq> None)"
    by blast
next
  assume a: "effectiveDate = None \<and> commencement_date opDetails = Some c
        \<and> calcAgreementTermDates plusDuration terms effectiveDate opDetails termination = Some res
        \<and> res \<noteq> []
        \<and> \<not> (term_type (res ! 0) = Some ''Construction'' \<and> \<not> extension (res ! 0)
                \<and> construction_commencement opDetails \<noteq> None)
        \<and> \<not> (term_type (res ! 0) = Some ''Operations'' \<and> \<not> extension (res ! 0)
                \<and> operations_commencement opDetails \<noteq> None)"
  then have g: "effectiveDate \<noteq> None \<or> commencement_date opDetails \<noteq> None" by simp
  from a have c: "calcAgreementTermDates plusDuration terms effectiveDate opDetails termination = Some res"
    and ne: "0 < length res" by blast+
  from calcAgreementTermDates_resolved[OF g, of plusDuration terms "termination"] c
  have "\<forall>j<length res. resolveTerm plusDuration effectiveDate opDetails termination res j = Some (res ! j)"
    by simp
  with ne have "resolveTerm plusDuration effectiveDate opDetails termination res 0 = Some (res ! 0)"
    by blast
  from resolveTerm_SomeD(5)[OF this] a show "start_date (res ! 0) = Some c"
    by (auto simp: termStartDate_def Let_def)
next
  assume a: "(effectiveDate \<noteq> None \<or> commencement_date opDetails \<noteq> None)
        \<and> calcAgreementTermDates plusDuration terms effectiveDate opDetails termination = Some res
        \<and> 0 < i \<and> i < length res
        \<and> \<not> (term_type (res ! i) = Some ''Construction'' \<and> \<not> extension (res ! i)
                \<and> construction_commencement opDetails \<noteq> None)
        \<and> \<not> (term_type (res ! i) = Some ''Operations'' \<and> \<not> extension (res ! i)
                \<and> operations_commencement opDetails \<noteq> None)"
  then have g: "effectiveDate \<noteq> None \<or> commencement_date opDetails \<noteq> None"
    and c: "calcAgreementTermDates plusDuration terms effectiveDate opDetails termination = Some res"
    and i: "0 < i" "i < length res"
    and n1: "\<not> (term_type (res ! i) = Some ''Construction'' \<and> \<not> extension (res ! i)
                \<and> construction_commencement opDetails \<noteq> None)"
    and n2: "\<not> (term_type (res ! i) = Some ''Operations'' \<and> \<not> extension (res ! i)
                \<and> operations_commencement opDetails \<noteq> None)"
    by blast+
  from calcAgreementTermDates_resolved[OF g, of plusDuration terms "termination"] c
  have "\<forall>j<length res. resolveTerm plusDuration effectiveDate opDetails termination res j = Some (res ! j)"
    by simp
  with i(2) have "resolveTerm plusDuration effectiveDate opDetails termination res i = Some (res ! i)"
    by blast
  from resolveTerm_SomeD(5)[OF this]
  have "start_date (res ! i) = termStartDate effectiveDate opDetails res i" .
  also have "\<dots> = (case end_date (res ! (i - 1)) of None \<Rightarrow> None | Some e \<Rightarrow> Some (plusDays 1 e))"
    using i(1) n1 n2 by (auto simp: termStartDate_def Let_def)
  also have "\<dots> = map_option (plusDays 1) (end_date (res ! (i - 1)))"
    by (cases "end_date (res ! (i - 1))") simp_all
  finally show "start_date (res ! i) = map_option (plusDays 1) (end_date (res ! (i - 1)))" .
qed

subsection \<open>The resolver on the example agreement\<close>

lemma exTerms_resolved:
  "calcAgreementTermDates monthsDuration exTerms (Some (localDate 2024 1 1))
     (exOps (Some (localDate 2026 1 1)) None) \<lparr>termination_date = None\<rparr> = Some exResolved"
  by code_simp

theorem calcAgreementTermDates_start_dates_witness:
  "Some (localDate 2024 1 1) \<noteq> (None :: DateTime option)
   \<and> calcAgreementTermDates monthsDuration exTerms (Some (localDate 2024 1 1))
        (exOps (Some (localDate 2026 1 1)) None) \<lparr>termination_date = None\<rparr> = Some exResolved
   \<and> map term_ordinal exResolved = [1, 2, 3]
   \<and> start_date (exResolved ! 0) = Some (localDate 2024 1 1)
   \<and> start_date (exResolved ! 1) = map_option (plusDays 1) (end_date (exResolved ! 0))
   \<and> start_date (exResolved ! 2) = Some (localDate 2026 1 1)"
proof -
  have g: "Some (localDate 2024 1 1) \<noteq> None
      \<or> commencement_date (exOps (Some (localDate 2026 1 1)) None) \<noteq> None"
    by simp
  from calcAgreementTermDates_start_dates[OF g, of monthsDuration exTerms "\<lparr>termination_date = None\<rparr>"]
  obtain res where r: "calcAgreementTermDates monthsDuration exTerms (Some (localDate 2024 1 1))
        (exOps (Some (localDate 2026 1 1)) None) \<lparr>termination_date = None\<rparr> = Some res"
    and p: "\<forall>i<length res.
          start_date (res ! i) \<noteq> None \<and>
          start_date (res ! i) =
            (if term_type (res ! i) = Some ''Construction'' \<and> \<not> extension (res ! i)
                \<and> construction_commencement (exOps (Some (localDate 2026 1 1)) None) \<noteq> None
             then construction_commencement (exOps (Some (localDate 2026 1 1)) None)
             else if term_type (res ! i) = Some ''Operations'' \<and> \<not> extension (res ! i)
                \<and> operations_commencement (exOps (Some (localDate 2026 1 1)) None) \<noteq> None
             then operations_commencement (exOps (Some (localDate 2026 1 1)) None)
             else if i = 0
             then (case commencement_date (exOps (Some (localDate 2026 1 1)) None) of
                     Some c \<Rightarrow> Some c | None \<Rightarrow> Some (localDate 2024 1 1))
             else map_option (plusDays 1) (end_date (res ! (i - 1))))"
    by blast
  from r exTerms_resolved have "res = exResolved" by simp
  with p
  have a: "\<forall>i<length exResolved.
          start_date (exResolved ! i) \<noteq> None \<and>
          start_date (exResolved ! i) =
            (if term_type (exResolved ! i) = Some ''Construction'' \<and> \<not> extension (exResolved ! i)
                \<and> construction_commencement (exOps (Some (localDate 2026 1 1)) None) \<noteq> None
             then construction_commencement (exOps (Some (localDate 2026 1 1)) None)
             else if term_type (exResolved ! i) = Some ''Operations'' \<and> \<not> extension (exResolved ! i)
                \<and> operations_commencement (exOps (Some (localDate 2026 1 1)) None) \<noteq> None
             then operations_commencement (exOps (Some (localDate 2026 1 1)) None)
             else if i = 0
             then (case commencement_date (exOps (Some (localDate 2026 1 1)) None) of
                     Some c \<Rightarrow> Some c | None \<Rightarrow> Some (localDate 2024 1 1))
             else map_option (plusDays 1) (end_date (exResolved ! (i - 1))))"
    by blast
  have len: "length exResolved = 3" by (simp add: exResolved_def)
  from a[rule_format, of 0] len have "start_date (exResolved ! 0) = Some (localDate 2024 1 1)"
    by (simp add: exResolved_def exTerm_def exOps_def)
  moreover from a[rule_format, of 1] len
  have "start_date (exResolved ! 1) = map_option (plusDays 1) (end_date (exResolved ! 0))"
    by (simp add: exResolved_def exTerm_def exOps_def)
  moreover from a[rule_format, of 2] len
  have "start_date (exResolved ! 2) = Some (localDate 2026 1 1)"
    by (simp add: exResolved_def exTerm_def exOps_def)
  moreover have "map term_ordinal exResolved = [1, 2, 3]"
    by (simp add: exResolved_def exTerm_def)
  ultimately show ?thesis using g exTerms_resolved by simp
qed

theorem cumulative_cohort_fold_witness:
  "Some (localDate 2024 1 1) \<noteq> (None :: DateTime option)
   \<and> calcAgreementTermDates monthsDuration exTerms (Some (localDate 2024 1 1))
        (exOps (Some (localDate 2026 1 1)) None) \<lparr>termination_date = None\<rparr> = Some exResolved
   \<and> 2 < length exResolved
   \<and> cumulative_escalation_rate (exResolved ! 2) = Some ((1 + 5 / 100) * (1 + 10 / 100))
   \<and> cumulative_increase_amount (exResolved ! 2) = Some (100 + 50)"
proof -
  have g: "Some (localDate 2024 1 1) \<noteq> None
      \<or> commencement_date (exOps (Some (localDate 2026 1 1)) None) \<noteq> None"
    by simp
  have len: "2 < length exResolved" by (simp add: exResolved_def)
  have srt: "sort_key term_ordinal exTerms =
      [exTerm 1 ''Development'' 1 ''Rent'' (Some 100) (Some 5),
       exTerm 2 ''Construction'' (1 / 2) ''Build'' None (Some 20),
       exTerm 3 ''Operations'' 2 ''Rent'' (Some 50) (Some 10)]"
    by (simp add: exTerms_def exTerm_def)
  from cumulative_cohort_fold[OF g exTerms_resolved len]
  show ?thesis using g exTerms_resolved len
    by (simp add: srt) (simp add: exResolved_def exTerm_def)
qed

lemma exTerms_resolved_commencement:
  "calcAgreementTermDates monthsDuration exTerms None
     (exOps None (Some (localDate 2024 3 1))) \<lparr>termination_date = None\<rparr> = Some exResolvedComm"
  by code_simp

theorem calcAgreementTermDates_guard_witness:
  "calcAgreementTermDates monthsDuration exTerms None (exOps None None)
       \<lparr>termination_date = None\<rparr> = Some exTerms
   \<and> calcAgreementTermDates monthsDuration exTerms None
       (exOps None (Some (localDate 2024 3 1))) \<lparr>termination_date = None\<rparr> = Some exResolvedComm
   \<and> exResolvedComm \<noteq> []
   \<and> term_type (exResolvedComm ! 0) = Some ''Development''
   \<and> start_date (exResolvedComm ! 0) = Some (localDate 2024 3 1)
   \<and> list_all (\<lambda>t. start_date t \<noteq> None \<and> end_date t \<noteq> None) exResolvedComm
   \<and> start_date (exResolvedComm ! 1) = map_option (plusDays 1) (end_date (exResolvedComm ! 0))"
proof -
  have later: "start_date (exResolvedComm ! 1)
      = map_option (plusDays 1) (end_date (exResolvedComm ! 0))"
  proof -
    have h: "(None \<noteq> None \<or> commencement_date (exOps None (Some (localDate 2024 3 1))) \<noteq> None)
        \<and> calcAgreementTermDates monthsDuration exTerms None
              (exOps None (Some (localDate 2024 3 1))) \<lparr>termination_date = None\<rparr>
            = Some exResolvedComm
        \<and> 0 < (1 :: nat) \<and> 1 < length exResolvedComm
        \<and> \<not> (term_type (exResolvedComm ! 1) = Some ''Construction''
                \<and> \<not> extension (exResolvedComm ! 1)
                \<and> construction_commencement (exOps None (Some (localDate 2024 3 1))) \<noteq> None)
        \<and> \<not> (term_type (exResolvedComm ! 1) = Some ''Operations''
                \<and> \<not> extension (exResolvedComm ! 1)
                \<and> operations_commencement (exOps None (Some (localDate 2024 3 1))) \<noteq> None)"
      using exTerms_resolved_commencement
      by (simp add: exOps_def exResolvedComm_def exTerm_def)
    from mp[OF conjunct2[OF conjunct2[OF conjunct2[OF calcAgreementTermDates_guard
        [of None "exOps None (Some (localDate 2024 3 1))" monthsDuration exTerms
            "\<lparr>termination_date = None\<rparr>" _ exResolvedComm 1]]]] h]
    show ?thesis by simp
  qed
  note thm1 = calcAgreementTermDates_guard
    [of None "exOps None None" monthsDuration exTerms "\<lparr>termination_date = None\<rparr>"]
  note thm2 = calcAgreementTermDates_guard
    [of None "exOps None (Some (localDate 2024 3 1))" monthsDuration exTerms
        "\<lparr>termination_date = None\<rparr>" "localDate 2024 3 1" exResolvedComm]
  have noop: "calcAgreementTermDates monthsDuration exTerms None (exOps None None)
       \<lparr>termination_date = None\<rparr> = Some exTerms"
    using thm1 by (simp add: exOps_def)
  have ne: "exResolvedComm \<noteq> []" by (simp add: exResolvedComm_def)
  have ty: "term_type (exResolvedComm ! 0) = Some ''Development''"
    by (simp add: exResolvedComm_def exTerm_def)
  have cd: "commencement_date (exOps None (Some (localDate 2024 3 1))) = Some (localDate 2024 3 1)"
    by (simp add: exOps_def)
  from thm2 exTerms_resolved_commencement ne ty cd
  have st: "start_date (exResolvedComm ! 0) = Some (localDate 2024 3 1)"
    by simp
  from thm2 exTerms_resolved_commencement cd
  have "\<forall>t \<in> set exResolvedComm. start_date t \<noteq> None \<and> end_date t \<noteq> None"
    by simp
  then have "list_all (\<lambda>t. start_date t \<noteq> None \<and> end_date t \<noteq> None) exResolvedComm"
    by (simp add: list_all_iff)
  with noop exTerms_resolved_commencement ne ty st later show ?thesis by simp
qed

text \<open>
  C10, as stated, fails. With no effective date, a commencement date of 2024-03-01 and a
  construction commencement of 2024-06-01, the "Construction" term comes first and takes
  the milestone; the "Operations" term, which has no milestone, is the first term that
  is not overridden, and it starts on 2025-06-01, one day after the end of the term
  before it. No term starts at the commencement date.
\<close>

theorem calcAgreementTermDates_guard_counterexample:
  "calcAgreementTermDates monthsDuration exMilestoneTerms None exMilestoneOps
       \<lparr>termination_date = None\<rparr> = Some exMilestoneResolved
   \<and> commencement_date exMilestoneOps = Some (localDate 2024 3 1)
   \<and> construction_commencement exMilestoneOps = Some (localDate 2024 6 1)
   \<and> operations_commencement exMilestoneOps = None
   \<and> map term_type exMilestoneResolved = [Some ''Construction'', Some ''Operations'']
   \<and> map start_date exMilestoneResolved = [Some (localDate 2024 6 1), Some (localDate 2025 6 1)]
   \<and> start_date (exMilestoneResolved ! 1) \<noteq> Some (localDate 2024 3 1)"
  by code_simp

section \<open>Properties of the date-based payments\<close>


lemma datePaymentLoop_unrecognized:
  assumes "frequency m \<notin> {Some ''Annually'', Some ''Semiannually'', Some ''Quarterly'', Some ''Monthly''}"
  shows "datePaymentLoop this m e d p =
     (if \<not> d \<le> e then Some []
      else if (case date_purchased this of None \<Rightarrow> False | Some dp \<Rightarrow> d > dp) then Some []
      else Some (datePaymentEvents this m d p))"
  using assms by (subst datePaymentLoop.simps) simp

lemma calcDatePaymentsForModel_unrecognized:
  assumes "frequency m \<notin> {Some ''Annually'', Some ''Semiannually'', Some ''Quarterly'', Some ''Monthly''}"
  shows "\<exists>events. calcDatePaymentsForModel this m = Some events
     \<and> (events = [] \<or> (\<exists>d. events = datePaymentEvents this m d 1))"
proof -
  have loop: "\<exists>events. datePaymentLoop this m e d 1 = Some events
      \<and> (events = [] \<or> events = datePaymentEvents this m d 1)" for e d
    by (simp add: datePaymentLoop_unrecognized[OF assms])
  show ?thesis
  proof (cases "calcDatePaymentsForModel this m = Some []")
    case True
    then show ?thesis by simp
  next
    case False
    then obtain e d where "calcDatePaymentsForModel this m = datePaymentLoop this m e d 1"
      by (auto simp: calcDatePaymentsForModel_def split: option.splits if_splits)
    with loop[of e d] show ?thesis by auto
  qed
qed

lemma calcDatePaymentModels_append:
  "calcDatePaymentModels this (xs @ ys) =
     Option.bind (calcDatePaymentModels this xs)
       (\<lambda>first. Option.bind (calcDatePaymentModels this ys) (\<lambda>rest. Some (first @ rest)))"
proof (induction xs)
  case Nil
  show ?case by (cases "calcDatePaymentModels this ys") simp_all
next
  case (Cons x xs)
  show ?case
    by (cases "calcDatePaymentsForModel this x"; cases "calcDatePaymentModels this xs";
        cases "calcDatePaymentModels this ys") (simp_all add: Cons.IH)
qed

text \<open>
  C4. A date-based model whose frequency is none of "Annually", "Semiannually",
  "Quarterly" and "Monthly" ends its generation with a result: at most the events of its
  first period, one per grantor. In a list of models its events stand between those of
  the models before it and those of the models after it, which are the events these
  models generate without it.
\<close>

theorem unrecognized_frequency_halts:
  assumes "frequency m \<notin> {Some ''Annually'', Some ''Semiannually'', Some ''Quarterly'', Some ''Monthly''}"
  shows "\<exists>events. calcDatePaymentsForModel this m = Some events
     \<and> (events = [] \<or> (\<exists>d. events = datePaymentEvents this m d 1))
     \<and> length events \<le> length (grantor this)
     \<and> calcDatePaymentModels this (before @ m # after) =
          Option.bind (calcDatePaymentModels this before)
            (\<lambda>first. Option.bind (calcDatePaymentModels this after)
               (\<lambda>rest. Some (first @ events @ rest)))
     \<and> calcDatePaymentModels this (before @ after) =
          Option.bind (calcDatePaymentModels this before)
            (\<lambda>first. Option.bind (calcDatePaymentModels this after)
               (\<lambda>rest. Some (first @ rest)))"
proof -
  from calcDatePaymentsForModel_unrecognized[OF assms, of this]
  obtain events where ev: "calcDatePaymentsForModel this m = Some events"
    and shape: "events = [] \<or> (\<exists>d. events = datePaymentEvents this m d 1)"
    by blast
  from shape have len: "length events \<le> length (grantor this)"
    by (auto simp: datePaymentEvents_def Let_def)
  have "calcDatePaymentModels this (before @ m # after) =
          Option.bind (calcDatePaymentModels this before)
            (\<lambda>first. Option.bind (calcDatePaymentModels this after)
               (\<lambda>rest. Some (first @ events @ rest)))"
    by (cases "calcDatePaymentModels this before"; cases "calcDatePaymentModels this after")
       (simp_all add: calcDatePaymentModels_append[of this before "m # after"] ev)
  with ev shape len calcDatePaymentModels_append[of this before after]
  show ?thesis by blast
qed

lemma exWeekly_events:
  "calcDatePaymentsForModel exDoc (exDateModel ''weekly'' (Some ''Weekly'')) =
     Some (datePaymentEvents exDoc (exDateModel ''weekly'' (Some ''Weekly'')) (localDate 2024 1 1) 1)"
  by code_simp

lemma exAnnual_events:
  "calcDatePaymentModels exDoc [exDateModel ''annual'' (Some ''Annually'')] =
     Some (datePaymentEvents exDoc (exDateModel ''annual'' (Some ''Annually'')) (localDate 2024 1 1) 1
         @ datePaymentEvents exDoc (exDateModel ''annual'' (Some ''Annually'')) (localDate 2025 1 1) 2)"
  by code_simp

theorem unrecognized_frequency_halts_witness:
  "frequency (exDateModel ''weekly'' (Some ''Weekly''))
     \<notin> {Some ''Annually'', Some ''Semiannually'', Some ''Quarterly'', Some ''Monthly''}
   \<and> calcDatePaymentsForModel exDoc (exDateModel ''weekly'' (Some ''Weekly'')) =
       Some (datePaymentEvents exDoc (exDateModel ''weekly'' (Some ''Weekly'')) (localDate 2024 1 1) 1)
   \<and> calcDatePaymentModels exDoc
         ([exDateModel ''annual'' (Some ''Annually'')] @ exDateModel ''weekly'' (Some ''Weekly'')
            # [exDateModel ''annual'' (Some ''Annually'')]) =
       Some ((datePaymentEvents exDoc (exDateModel ''annual'' (Some ''Annually'')) (localDate 2024 1 1) 1
               @ datePaymentEvents exDoc (exDateModel ''annual'' (Some ''Annually'')) (localDate 2025 1 1) 2)
           @ datePaymentEvents exDoc (exDateModel ''weekly'' (Some ''Weekly'')) (localDate 2024 1 1) 1
           @ (datePaymentEvents exDoc (exDateModel ''annual'' (Some ''Annually'')) (localDate 2024 1 1) 1
               @ datePaymentEvents exDoc (exDateModel ''annual'' (Some ''Annually'')) (localDate 2025 1 1) 2))"
proof -
  have h: "frequency (exDateModel ''weekly'' (Some ''Weekly''))
     \<notin> {Some ''Annually'', Some ''Semiannually'', Some ''Quarterly'', Some ''Monthly''}"
    by (simp add: exDateModel_def)
  from unrecognized_frequency_halts[OF h, of exDoc "[exDateModel ''annual'' (Some ''Annually'')]"
      "[exDateModel ''annual'' (Some ''Annually'')]"]
  obtain events where
    ev: "calcDatePaymentsForModel exDoc (exDateModel ''weekly'' (Some ''Weekly'')) = Some events"
    and eq: "calcDatePaymentModels exDoc
         ([exDateModel ''annual'' (Some ''Annually'')] @ exDateModel ''weekly'' (Some ''Weekly'')
            # [exDateModel ''annual'' (Some ''Annually'')]) =
          Option.bind (calcDatePaymentModels exDoc [exDateModel ''annual'' (Some ''Annually'')])
            (\<lambda>first. Option.bind (calcDatePaymentModels exDoc [exDateModel ''annual'' (Some ''Annually'')])
               (\<lambda>rest. Some (first @ events @ rest)))"
    by blast
  from ev exWeekly_events
  have "events = datePaymentEvents exDoc (exDateModel ''weekly'' (Some ''Weekly'')) (localDate 2024 1 1) 1"
    by simp
  with eq h exWeekly_events show ?thesis
    by (simp only: exAnnual_events Option.bind.simps simp_thms)
qed

section \<open>Properties of the purchase-price settlement\<close>

lemma applicableSum_sum_list:
  "applicableSum events = sum_list (map payment_amount (filter applicable_to_purchase events))"
  by (simp add: applicableSum_def foldl_add_sum_list)

lemma foldl_term_payments:
  "foldl (\<lambda>previous t. case periodic_payments t of
                           None \<Rightarrow> previous
                         | Some payments \<Rightarrow> previous + applicableSum payments) a ts =
     a + sum_list (map payment_amount (filter applicable_to_purchase
           (concat (map (\<lambda>t. case periodic_payments t of None \<Rightarrow> [] | Some ps \<Rightarrow> ps) ts))))"
proof (induction ts arbitrary: a)
  case Nil
  show ?case by simp
next
  case (Cons t ts)
  show ?case
    by (cases "periodic_payments t") (simp_all add: Cons.IH applicableSum_sum_list)
qed

lemma previousApplicablePayments_sum_list:
  "previousApplicablePayments this =
     sum_list (map payment_amount (filter applicable_to_purchase
       (concat (map (\<lambda>t. case periodic_payments t of None \<Rightarrow> [] | Some ps \<Rightarrow> ps)
                  (agreement_terms this))
        @ date_payments this)))"
  by (simp add: previousApplicablePayments_def foldl_term_payments applicableSum_sum_list)

lemma calcEstimatedPurchasePrice_skip:
  assumes "\<not> (truthyNum (full_purchase_price this)
             \<and> (date_purchased this \<noteq> None \<or> estimated_closing_date this \<noteq> None)
             \<and> terminationDate this = None)"
  shows "calcEstimatedPurchasePrice this = this"
proof (cases "closingDate this")
  case None
  then have "date_purchased this = None \<and> estimated_closing_date this = None"
    by (simp add: closingDate_def split: option.splits)
  then show ?thesis by (simp add: calcEstimatedPurchasePrice_def)
next
  case (Some closing)
  then have d: "date_purchased this \<noteq> None \<or> estimated_closing_date this \<noteq> None"
    by (auto simp: closingDate_def split: option.splits)
  show ?thesis
  proof (cases "full_purchase_price this")
    case None
    then show ?thesis by (simp add: calcEstimatedPurchasePrice_def)
  next
    case (Some price)
    with assms d show ?thesis
      by (cases "price = 0") (auto simp: calcEstimatedPurchasePrice_def \<open>closingDate this = Some closing\<close>)
  qed
qed

lemma calcEstimatedPurchasePrice_emit:
  assumes "full_purchase_price this = Some price" "price \<noteq> 0"
    "closingDate this = Some closing" "terminationDate this = None"
  shows "calcEstimatedPurchasePrice this =
     this\<lparr>date_payments := date_payments this
        @ map (purchasePriceEvent this price closing (previousApplicablePayments this))
            (grantor this)\<rparr>"
proof -
  from assms(3) have "\<not> (estimated_closing_date this = None \<and> date_purchased this = None)"
    by (auto simp: closingDate_def split: option.splits)
  with assms show ?thesis
    by (auto simp: calcEstimatedPurchasePrice_def Let_def)
qed

text \<open>
  C5. The settlement adds nothing unless the document has a (non-zero) full purchase
  price, a purchase date or an estimated closing date, and no termination date. When
  it has, exactly one event per grantor is appended to the date payments, dated at the
  purchase date or else the estimated closing date, with the amount (full purchase
  price minus the sum of the earlier term and date payments flagged
  \<open>applicable_to_purchase\<close>) times the split of the grantor, which is its
  \<open>payment_split\<close> percentage or, without one, an equal part of 100 percent, flagged
  applicable to the purchase and not refundable. With a price of 100000, earlier applicable payments of
  20000 and one grantor on the default split, the amount is 80000.
\<close>

theorem purchase_price_settlement:
  "(\<not> (truthyNum (full_purchase_price this)
         \<and> (date_purchased this \<noteq> None \<or> estimated_closing_date this \<noteq> None)
         \<and> terminationDate this = None)
      \<longrightarrow> calcEstimatedPurchasePrice this = this)
   \<and> (full_purchase_price this = Some price \<and> price \<noteq> 0
        \<and> (date_purchased this = Some closing
             \<or> date_purchased this = None \<and> estimated_closing_date this = Some closing)
        \<and> terminationDate this = None
        \<and> prior = sum_list (map payment_amount (filter applicable_to_purchase
              (concat (map (\<lambda>t. case periodic_payments t of None \<Rightarrow> [] | Some ps \<Rightarrow> ps)
                         (agreement_terms this))
               @ date_payments this)))
      \<longrightarrow> (\<exists>settlement.
             calcEstimatedPurchasePrice this
               = this\<lparr>date_payments := date_payments this @ settlement\<rparr>
             \<and> length settlement = length (grantor this)
             \<and> (\<forall>i < length (grantor this).
                   payment_source (settlement ! i) = ''Purchase Price Calculation''
                   \<and> payment_date (settlement ! i) = closing
                   \<and> payment_amount (settlement ! i)
                       = (price - prior)
                         * ((case payment_split (grantor this ! i) of
                              Some split \<Rightarrow> split
                            | None \<Rightarrow> 100 / real (length (grantor this))) / 100)
                   \<and> applicable_to_purchase (settlement ! i)
                   \<and> \<not> refundable (settlement ! i))
             \<and> (price = 100000 \<and> prior = 20000 \<and> length (grantor this) = 1
                  \<and> payment_split (grantor this ! 0) = None
                \<longrightarrow> map payment_amount settlement = [80000])))"
proof (intro conjI impI)
  assume "\<not> (truthyNum (full_purchase_price this)
         \<and> (date_purchased this \<noteq> None \<or> estimated_closing_date this \<noteq> None)
         \<and> terminationDate this = None)"
  then show "calcEstimatedPurchasePrice this = this"
    by (rule calcEstimatedPurchasePrice_skip)
next
  assume a: "full_purchase_price this = Some price \<and> price \<noteq> 0
        \<and> (date_purchased this = Some closing
             \<or> date_purchased this = None \<and> estimated_closing_date this = Some closing)
        \<and> terminationDate this = None
        \<and> prior = sum_list (map payment_amount (filter applicable_to_purchase
              (concat (map (\<lambda>t. case periodic_payments t of None \<Rightarrow> [] | Some ps \<Rightarrow> ps)
                         (agreement_terms this))
               @ date_payments this)))"
  then have cd: "closingDate this = Some closing"
    by (auto simp: closingDate_def)
  from a have pr: "prior = previousApplicablePayments this"
    by (simp only: previousApplicablePayments_sum_list)
  let ?settlement = "map (purchasePriceEvent this price closing prior) (grantor this)"
  from a cd pr have eq: "calcEstimatedPurchasePrice this
      = this\<lparr>date_payments := date_payments this @ ?settlement\<rparr>"
    using calcEstimatedPurchasePrice_emit[of this price closing] by simp
  have fields: "\<forall>i < length (grantor this).
        payment_source (?settlement ! i) = ''Purchase Price Calculation''
        \<and> payment_date (?settlement ! i) = closing
        \<and> payment_amount (?settlement ! i)
            = (price - prior)
              * ((case payment_split (grantor this ! i) of
                              Some split \<Rightarrow> split
                            | None \<Rightarrow> 100 / real (length (grantor this))) / 100)
        \<and> applicable_to_purchase (?settlement ! i)
        \<and> \<not> refundable (?settlement ! i)"
    by (simp add: purchasePriceEvent_def grantorShare_def)
  have special: "map payment_amount ?settlement = [80000]"
    if "price = 100000 \<and> prior = 20000 \<and> length (grantor this) = 1
        \<and> payment_split (grantor this ! 0) = None"
  proof -
    from that obtain g where g: "grantor this = [g]"
      by (cases "grantor this") auto
    with that show ?thesis
      by (simp add: purchasePriceEvent_def grantorShare_def)
  qed
  from eq fields special
  show "\<exists>settlement.
             calcEstimatedPurchasePrice this
               = this\<lparr>date_payments := date_payments this @ settlement\<rparr>
             \<and> length settlement = length (grantor this)
             \<and> (\<forall>i < length (grantor this).
                   payment_source (settlement ! i) = ''Purchase Price Calculation''
                   \<and> payment_date (settlement ! i) = closing
                   \<and> payment_amount (settlement ! i)
                       = (price - prior)
                         * ((case payment_split (grantor this ! i) of
                              Some split \<Rightarrow> split
                            | None \<Rightarrow> 100 / real (length (grantor this))) / 100)
                   \<and> applicable_to_purchase (settlement ! i)
                   \<and> \<not> refundable (settlement ! i))
             \<and> (price = 100000 \<and> prior = 20000 \<and> length (grantor this) = 1
                  \<and> payment_split (grantor this ! 0) = None
                \<longrightarrow> map payment_amount settlement = [80000])"
    by (intro exI[of _ ?settlement]) simp
qed

theorem purchase_price_settlement_witness:
  "full_purchase_price exPaid = Some 100000
   \<and> date_purchased exPaid = None
   \<and> estimated_closing_date exPaid = Some (localDate 2026 1 1)
   \<and> terminationDate exPaid = None
   \<and> sum_list (map payment_amount (filter applicable_to_purchase
         (concat (map (\<lambda>t. case periodic_payments t of None \<Rightarrow> [] | Some ps \<Rightarrow> ps)
                    (agreement_terms exPaid))
          @ date_payments exPaid))) = 20000
   \<and> map payment_amount (drop (length (date_payments exPaid))
         (date_payments (calcEstimatedPurchasePrice exPaid))) = [80000]
   \<and> calcEstimatedPurchasePrice
         (exPaid\<lparr>doc_termination := Some \<lparr>termination_date = Some (localDate 2025 1 1)\<rparr>\<rparr>)
       = exPaid\<lparr>doc_termination := Some \<lparr>termination_date = Some (localDate 2025 1 1)\<rparr>\<rparr>
   \<and> map payment_split (grantor exPaidSplit) = [Some 25, Some 75]
   \<and> map payment_amount (drop (length (date_payments exPaidSplit))
         (date_payments (calcEstimatedPurchasePrice exPaidSplit))) = [20000, 60000]"
proof -
  have p2: "full_purchase_price exPaidSplit = Some 100000"
    and d2: "date_purchased exPaidSplit = None"
    and e2: "estimated_closing_date exPaidSplit = Some (localDate 2026 1 1)"
    and t2: "terminationDate exPaidSplit = None"
    and g2: "length (grantor exPaidSplit) = 2"
      "payment_split (grantor exPaidSplit ! 0) = Some 25"
      "payment_split (grantor exPaidSplit ! 1) = Some 75"
    and sp2: "map payment_split (grantor exPaidSplit) = [Some 25, Some 75]"
    by (simp_all add: exPaidSplit_def exPaid_def exDoc_def exGrantor_def terminationDate_def)
  have s2: "(20000 :: real) = sum_list (map payment_amount (filter applicable_to_purchase
         (concat (map (\<lambda>t. case periodic_payments t of None \<Rightarrow> [] | Some ps \<Rightarrow> ps)
                    (agreement_terms exPaidSplit))
          @ date_payments exPaidSplit)))"
    by (simp add: exPaidSplit_def exPaid_def exDoc_def exEvent_def)
  have hyp2: "full_purchase_price exPaidSplit = Some 100000 \<and> (100000 :: real) \<noteq> 0
        \<and> (date_purchased exPaidSplit = Some (localDate 2026 1 1)
             \<or> date_purchased exPaidSplit = None
                \<and> estimated_closing_date exPaidSplit = Some (localDate 2026 1 1))
        \<and> terminationDate exPaidSplit = None
        \<and> (20000 :: real) = sum_list (map payment_amount (filter applicable_to_purchase
              (concat (map (\<lambda>t. case periodic_payments t of None \<Rightarrow> [] | Some ps \<Rightarrow> ps)
                         (agreement_terms exPaidSplit))
               @ date_payments exPaidSplit)))"
    using p2 d2 e2 t2 s2 by (intro conjI disjI2) simp_all
  from mp[OF conjunct2[OF purchase_price_settlement
        [of exPaidSplit 100000 "localDate 2026 1 1" 20000]] hyp2]
  obtain settlement2 where
    eq2: "calcEstimatedPurchasePrice exPaidSplit
           = exPaidSplit\<lparr>date_payments := date_payments exPaidSplit @ settlement2\<rparr>"
    and len2: "length settlement2 = length (grantor exPaidSplit)"
    and all2: "\<forall>i < length (grantor exPaidSplit).
                   payment_source (settlement2 ! i) = ''Purchase Price Calculation''
                   \<and> payment_date (settlement2 ! i) = localDate 2026 1 1
                   \<and> payment_amount (settlement2 ! i)
                       = (100000 - 20000)
                         * ((case payment_split (grantor exPaidSplit ! i) of
                              Some split \<Rightarrow> split
                            | None \<Rightarrow> 100 / real (length (grantor exPaidSplit))) / 100)
                   \<and> applicable_to_purchase (settlement2 ! i)
                   \<and> \<not> refundable (settlement2 ! i)"
    by (elim exE conjE) (rule that)
  from all2[rule_format, of 0] g2 have a0: "payment_amount (settlement2 ! 0) = 20000"
    by simp
  from all2[rule_format, of 1] g2 have a1: "payment_amount (settlement2 ! 1) = 60000"
    by simp
  from len2 g2(1) have "settlement2 = [settlement2 ! 0, settlement2 ! 1]"
    by (cases settlement2; cases "tl settlement2") auto
  then have "map payment_amount settlement2
      = [payment_amount (settlement2 ! 0), payment_amount (settlement2 ! 1)]"
    by (metis list.simps(8,9))
  with a0 a1 have am2: "map payment_amount settlement2 = [20000, 60000]"
    by simp
  from eq2 am2 have split_amounts:
    "map payment_amount (drop (length (date_payments exPaidSplit))
         (date_payments (calcEstimatedPurchasePrice exPaidSplit))) = [20000, 60000]"
    by simp
  have p: "full_purchase_price exPaid = Some 100000"
    and d: "date_purchased exPaid = None"
    and e: "estimated_closing_date exPaid = Some (localDate 2026 1 1)"
    and t: "terminationDate exPaid = None"
    and g: "length (grantor exPaid) = 1" "payment_split (grantor exPaid ! 0) = None"
    by (simp_all add: exPaid_def exDoc_def exGrantor_def terminationDate_def)
  have s: "(20000 :: real) = sum_list (map payment_amount (filter applicable_to_purchase
         (concat (map (\<lambda>t. case periodic_payments t of None \<Rightarrow> [] | Some ps \<Rightarrow> ps)
                    (agreement_terms exPaid))
          @ date_payments exPaid)))"
    by (simp add: exPaid_def exDoc_def exEvent_def)
  have hyp: "full_purchase_price exPaid = Some 100000 \<and> (100000 :: real) \<noteq> 0
        \<and> (date_purchased exPaid = Some (localDate 2026 1 1)
             \<or> date_purchased exPaid = None \<and> estimated_closing_date exPaid = Some (localDate 2026 1 1))
        \<and> terminationDate exPaid = None
        \<and> (20000 :: real) = sum_list (map payment_amount (filter applicable_to_purchase
              (concat (map (\<lambda>t. case periodic_payments t of None \<Rightarrow> [] | Some ps \<Rightarrow> ps)
                         (agreement_terms exPaid))
               @ date_payments exPaid)))"
    using p d e t s by (intro conjI disjI2) simp_all
  from mp[OF conjunct2[OF purchase_price_settlement[of exPaid 100000 "localDate 2026 1 1" 20000]] hyp]
  obtain settlement where
    eq: "calcEstimatedPurchasePrice exPaid
           = exPaid\<lparr>date_payments := date_payments exPaid @ settlement\<rparr>"
    and sp: "(100000 :: real) = 100000 \<and> (20000 :: real) = 20000 \<and> length (grantor exPaid) = 1
                  \<and> payment_split (grantor exPaid ! 0) = None
                \<longrightarrow> map payment_amount settlement = [80000]"
    by (elim exE conjE) (rule that)
  from sp g have am: "map payment_amount settlement = [80000]"
    by simp
  have skip: "calcEstimatedPurchasePrice
         (exPaid\<lparr>doc_termination := Some \<lparr>termination_date = Some (localDate 2025 1 1)\<rparr>\<rparr>)
       = exPaid\<lparr>doc_termination := Some \<lparr>termination_date = Some (localDate 2025 1 1)\<rparr>\<rparr>"
    by (rule mp[OF conjunct1[OF purchase_price_settlement]]) (simp add: terminationDate_def)
  from eq am have "map payment_amount (drop (length (date_payments exPaid))
         (date_payments (calcEstimatedPurchasePrice exPaid))) = [80000]"
    by simp
  with p d e t s skip sp2 split_amounts show ?thesis by simp
qed

section \<open>Payee shares\<close>

lemma sum_list_const_real:
  "(\<forall>x \<in> set xs. f x = c) \<Longrightarrow> sum_list (map f xs) = real (length xs) * c" for c :: real
  by (induction xs) (simp_all add: algebra_simps)

lemma sum_list_div_real:
  "sum_list (map (\<lambda>x. f x / c) xs) = sum_list (map f xs) / c" for c :: real
  by (induction xs) (simp_all add: add_divide_distrib)

text \<open>
  The shares \<open>(g.payment_split ?? 100 / grantor.length) / 100\<close> of the date-based,
  standard and settlement paths add up to 1, under the default split and under explicit
  splits that add up to 100; so the events of one date-based payment add up to its
  amount.
\<close>

lemma grantorShare_sum_default:
  assumes "grantors \<noteq> []" "\<forall>g \<in> set grantors. payment_split g = None"
  shows "sum_list (map (grantorShare grantors) grantors) = 1"
proof -
  have "\<forall>g \<in> set grantors. grantorShare grantors g = 100 / real (length grantors) / 100"
    using assms(2) by (simp add: grantorShare_def)
  from sum_list_const_real[OF this] assms(1) show ?thesis by simp
qed

lemma grantorShare_sum_explicit:
  assumes "\<forall>g \<in> set grantors. payment_split g \<noteq> None"
    "sum_list (map (\<lambda>g. orZero (payment_split g)) grantors) = 100"
  shows "sum_list (map (grantorShare grantors) grantors) = 1"
proof -
  have "map (grantorShare grantors) grantors = map (\<lambda>g. orZero (payment_split g) / 100) grantors"
    using assms(1) by (auto simp: grantorShare_def)
  then have "sum_list (map (grantorShare grantors) grantors)
      = sum_list (map (\<lambda>g. orZero (payment_split g)) grantors) / 100"
    by (simp only: sum_list_div_real)
  with assms(2) show ?thesis by simp
qed

lemma datePaymentEvents_total:
  "sum_list (map payment_amount (datePaymentEvents this m d p)) =
     datePaymentAmount m p * sum_list (map (grantorShare (grantor this)) (grantor this))"
  by (simp add: datePaymentEvents_def Let_def comp_def sum_list_const_mult)

text \<open>
  The shares \<open>(g.payment_split ?? 100) / grantor.length / 100\<close> of the blended path add up
  to 1 under the default split, and to \<open>1 / grantor.length\<close> under explicit splits that add
  up to 100.
\<close>

lemma blendedGrantorShare_sum_default:
  assumes "grantors \<noteq> []" "\<forall>g \<in> set grantors. payment_split g = None"
  shows "sum_list (map (blendedGrantorShare grantors) grantors) = 1"
proof -
  have "\<forall>g \<in> set grantors. blendedGrantorShare grantors g = 100 / real (length grantors) / 100"
    using assms(2) by (simp add: blendedGrantorShare_def)
  from sum_list_const_real[OF this] assms(1) show ?thesis by simp
qed

lemma blendedGrantorShare_sum_explicit:
  assumes "\<forall>g \<in> set grantors. payment_split g \<noteq> None"
    "sum_list (map (\<lambda>g. orZero (payment_split g)) grantors) = 100"
  shows "sum_list (map (blendedGrantorShare grantors) grantors) = 1 / real (length grantors)"
proof -
  have "map (blendedGrantorShare grantors) grantors
      = map (\<lambda>g. orZero (payment_split g) / (real (length grantors) * 100)) grantors"
    using assms(1) by (auto simp: blendedGrantorShare_def)
  then have "sum_list (map (blendedGrantorShare grantors) grantors)
      = sum_list (map (\<lambda>g. orZero (payment_split g)) grantors) / (real (length grantors) * 100)"
    by (simp only: sum_list_div_real)
  with assms(2) show ?thesis by simp
qed

text \<open>
  C3, at the input where it fails. The model of the term takes the blended path, two
  grantors hold explicit splits of 50 and 50, and the path is given one payment with a
  total of 1000: the two events carry 250
  each, 500 together, where the shares of the instant should add up to the 1000.
\<close>

theorem blended_explicit_split_shortfall:
  "usesBlendedPath exBlendedModel
   \<and> termPaymentModel exBlendedTerm (Some (term_payment_models exSplitDoc)) = Some exBlendedModel
   \<and> map payment_split (grantor exSplitDoc) = [Some 50, Some 50]
   \<and> map total_payment
         (exBlendedEscalation (localDate 2024 1 1) (localDate 2024 12 31) True
            (localDate 2024 1 1) (Some (2 / 100)) (Some 1000) None) = [1000]
   \<and> map_option (map payment_amount)
         (calcBlendedPeriodicPaymentsForTerm exBlendedEscalation exSplitDoc exBlendedTerm
            (Some (operational_details exSplitDoc)) (Some (term_payment_models exSplitDoc))
            (Some (total_controlled_acres exSplitDoc)) (grantor exSplitDoc))
       = Some [250, 250]
   \<and> map_option (\<lambda>events. sum_list (map payment_amount events))
         (calcBlendedPeriodicPaymentsForTerm exBlendedEscalation exSplitDoc exBlendedTerm
            (Some (operational_details exSplitDoc)) (Some (term_payment_models exSplitDoc))
            (Some (total_controlled_acres exSplitDoc)) (grantor exSplitDoc))
       = Some 500"
  by code_simp

theorem blended_explicit_split_shortfall_witness:
  "map_option (\<lambda>events. sum_list (map payment_amount events))
      (calcBlendedPeriodicPaymentsForTerm exBlendedEscalation exSplitDoc exBlendedTerm
         (Some (operational_details exSplitDoc)) (Some (term_payment_models exSplitDoc))
         (Some (total_controlled_acres exSplitDoc)) (grantor exSplitDoc))
    = Some 500"
  using blended_explicit_split_shortfall by (elim conjE)

section \<open>Properties of the amendment overlay\<close>

lemma foldl_overwrite:
  assumes "\<And>d a. f (step d a) = (if T a then g a else f d)"
  shows "f (foldl step d xs) = foldl (\<lambda>acc a. if T a then g a else acc) (f d) xs"
  by (induction xs arbitrary: d) (simp_all add: assms)

lemma foldl_last_wins_twice:
  "foldl (\<lambda>acc a. if T a then g a else acc) (foldl (\<lambda>acc a. if T a then g a else acc) x xs) xs
     = foldl (\<lambda>acc a. if T a then g a else acc) x xs"
  by (induction xs arbitrary: x rule: rev_induct) simp_all

lemma foldl_overwrite_twice:
  assumes "\<And>d a. f (step d a) = (if T a then g a else f d)"
  shows "f (foldl step (foldl step d xs) xs) = f (foldl step d xs)"
  by (simp only: foldl_overwrite[of f step T g, OF assms] foldl_last_wins_twice)

lemma foldl_kept:
  assumes "\<And>d a. f (step d a) = f d"
  shows "f (foldl step d xs) = f d"
  by (induction xs arbitrary: d) (simp_all add: assms)

lemma foldl_applyAmendment_models:
  "date_payment_models (foldl applyAmendment d xs)
     = date_payment_models d @ concat (map date_payment_models xs)"
  by (induction xs arbitrary: d) (simp_all add: applyAmendment_def)

lemma foldl_applyAmendment_amendments:
  "foldl applyAmendment (d\<lparr>amendments := x\<rparr>) xs = (foldl applyAmendment d xs)\<lparr>amendments := x\<rparr>"
proof (induction xs arbitrary: d)
  case Nil
  show ?case by simp
next
  case (Cons a xs)
  have "applyAmendment (d\<lparr>amendments := x\<rparr>) a = (applyAmendment d a)\<lparr>amendments := x\<rparr>"
    by (simp add: applyAmendment_def)
  then show ?case by (simp add: Cons.IH)
qed

text \<open>
  Folding the same amendments into the result of the fold once more changes nothing but
  the date payment models, which receive the models of the amendments again.
\<close>

lemma foldl_applyAmendment_twice:
  "foldl applyAmendment (foldl applyAmendment d xs) xs =
     (foldl applyAmendment d xs)
       \<lparr>date_payment_models := date_payment_models (foldl applyAmendment d xs)
          @ concat (map date_payment_models xs)\<rparr>"
proof (rule JupiterDoc.equality)
  show "doc_id (foldl applyAmendment (foldl applyAmendment d xs) xs) =
     doc_id ((foldl applyAmendment d xs)
       \<lparr>date_payment_models := date_payment_models (foldl applyAmendment d xs)
          @ concat (map date_payment_models xs)\<rparr>)"
    using foldl_kept[of doc_id applyAmendment] by (simp add: applyAmendment_def)
  show "agreement_group (foldl applyAmendment (foldl applyAmendment d xs) xs) =
     agreement_group ((foldl applyAmendment d xs)
       \<lparr>date_payment_models := date_payment_models (foldl applyAmendment d xs)
          @ concat (map date_payment_models xs)\<rparr>)"
    using foldl_kept[of agreement_group applyAmendment] by (simp add: applyAmendment_def)
  show "project_id (foldl applyAmendment (foldl applyAmendment d xs) xs) =
     project_id ((foldl applyAmendment d xs)
       \<lparr>date_payment_models := date_payment_models (foldl applyAmendment d xs)
          @ concat (map date_payment_models xs)\<rparr>)"
    using foldl_kept[of project_id applyAmendment] by (simp add: applyAmendment_def)
  show "effective_date (foldl applyAmendment (foldl applyAmendment d xs) xs) =
     effective_date ((foldl applyAmendment d xs)
       \<lparr>date_payment_models := date_payment_models (foldl applyAmendment d xs)
          @ concat (map date_payment_models xs)\<rparr>)"
    using foldl_overwrite_twice[of effective_date applyAmendment "\<lambda>a. effective_date a \<noteq> None" "\<lambda>a. effective_date a" d xs]
    by (simp add: applyAmendment_def)
  show "amendment_date (foldl applyAmendment (foldl applyAmendment d xs) xs) =
     amendment_date ((foldl applyAmendment d xs)
       \<lparr>date_payment_models := date_payment_models (foldl applyAmendment d xs)
          @ concat (map date_payment_models xs)\<rparr>)"
    using foldl_kept[of amendment_date applyAmendment] by (simp add: applyAmendment_def)
  show "letter_date (foldl applyAmendment (foldl applyAmendment d xs) xs) =
     letter_date ((foldl applyAmendment d xs)
       \<lparr>date_payment_models := date_payment_models (foldl applyAmendment d xs)
          @ concat (map date_payment_models xs)\<rparr>)"
    using foldl_kept[of letter_date applyAmendment] by (simp add: applyAmendment_def)
  show "deed_date (foldl applyAmendment (foldl applyAmendment d xs) xs) =
     deed_date ((foldl applyAmendment d xs)
       \<lparr>date_payment_models := date_payment_models (foldl applyAmendment d xs)
          @ concat (map date_payment_models xs)\<rparr>)"
    using foldl_kept[of deed_date applyAmendment] by (simp add: applyAmendment_def)
  show "payment_directive_date (foldl applyAmendment (foldl applyAmendment d xs) xs) =
     payment_directive_date ((foldl applyAmendment d xs)
       \<lparr>date_payment_models := date_payment_models (foldl applyAmendment d xs)
          @ concat (map date_payment_models xs)\<rparr>)"
    using foldl_kept[of payment_directive_date applyAmendment] by (simp add: applyAmendment_def)
  show "recorded_date (foldl applyAmendment (foldl applyAmendment d xs) xs) =
     recorded_date ((foldl applyAmendment d xs)
       \<lparr>date_payment_models := date_payment_models (foldl applyAmendment d xs)
          @ concat (map date_payment_models xs)\<rparr>)"
    using foldl_kept[of recorded_date applyAmendment] by (simp add: applyAmendment_def)
  show "outside_date (foldl applyAmendment (foldl applyAmendment d xs) xs) =
     outside_date ((foldl applyAmendment d xs)
       \<lparr>date_payment_models := date_payment_models (foldl applyAmendment d xs)
          @ concat (map date_payment_models xs)\<rparr>)"
    using foldl_overwrite_twice[of outside_date applyAmendment "\<lambda>a. outside_date a \<noteq> None" "\<lambda>a. outside_date a" d xs]
    by (simp add: applyAmendment_def)
  show "property_description (foldl applyAmendment (foldl applyAmendment d xs) xs) =
     property_description ((foldl applyAmendment d xs)
       \<lparr>date_payment_models := date_payment_models (foldl applyAmendment d xs)
          @ concat (map date_payment_models xs)\<rparr>)"
    using foldl_overwrite_twice[of property_description applyAmendment "\<lambda>a. property_description a \<noteq> []" "\<lambda>a. property_description a" d xs]
    by (simp add: applyAmendment_def)
  show "jupiter_entity (foldl applyAmendment (foldl applyAmendment d xs) xs) =
     jupiter_entity ((foldl applyAmendment d xs)
       \<lparr>date_payment_models := date_payment_models (foldl applyAmendment d xs)
          @ concat (map date_payment_models xs)\<rparr>)"
    using foldl_overwrite_twice[of jupiter_entity applyAmendment "\<lambda>a. truthyStr (jupiter_entity a)" "\<lambda>a. jupiter_entity a" d xs]
    by (simp add: applyAmendment_def)
  show "grantee (foldl applyAmendment (foldl applyAmendment d xs) xs) =
     grantee ((foldl applyAmendment d xs)
       \<lparr>date_payment_models := date_payment_models (foldl applyAmendment d xs)
          @ concat (map date_payment_models xs)\<rparr>)"
    using foldl_overwrite_twice[of grantee applyAmendment "\<lambda>a. truthyStr (grantee a)" "\<lambda>a. grantee a" d xs]
    by (simp add: applyAmendment_def)
  show "grantor (foldl applyAmendment (foldl applyAmendment d xs) xs) =
     grantor ((foldl applyAmendment d xs)
       \<lparr>date_payment_models := date_payment_models (foldl applyAmendment d xs)
          @ concat (map date_payment_models xs)\<rparr>)"
    using foldl_overwrite_twice[of grantor applyAmendment "\<lambda>a. grantor a \<noteq> []" "\<lambda>a. grantor a" d xs]
    by (simp add: applyAmendment_def)
  show "full_purchase_price (foldl applyAmendment (foldl applyAmendment d xs) xs) =
     full_purchase_price ((foldl applyAmendment d xs)
       \<lparr>date_payment_models := date_payment_models (foldl applyAmendment d xs)
          @ concat (map date_payment_models xs)\<rparr>)"
    using foldl_overwrite_twice[of full_purchase_price applyAmendment "\<lambda>a. truthyNum (full_purchase_price a)" "\<lambda>a. full_purchase_price a" d xs]
    by (simp add: applyAmendment_def)
  show "estimated_closing_date (foldl applyAmendment (foldl applyAmendment d xs) xs) =
     estimated_closing_date ((foldl applyAmendment d xs)
       \<lparr>date_payment_models := date_payment_models (foldl applyAmendment d xs)
          @ concat (map date_payment_models xs)\<rparr>)"
    using foldl_overwrite_twice[of estimated_closing_date applyAmendment "\<lambda>a. estimated_closing_date a \<noteq> None" "\<lambda>a. estimated_closing_date a" d xs]
    by (simp add: applyAmendment_def)
  show "date_purchased (foldl applyAmendment (foldl applyAmendment d xs) xs) =
     date_purchased ((foldl applyAmendment d xs)
       \<lparr>date_payment_models := date_payment_models (foldl applyAmendment d xs)
          @ concat (map date_payment_models xs)\<rparr>)"
    using foldl_overwrite_twice[of date_purchased applyAmendment "\<lambda>a. date_purchased a \<noteq> None" "\<lambda>a. date_purchased a" d xs]
    by (simp add: applyAmendment_def)
  show "date_sold (foldl applyAmendment (foldl applyAmendment d xs) xs) =
     date_sold ((foldl applyAmendment d xs)
       \<lparr>date_payment_models := date_payment_models (foldl applyAmendment d xs)
          @ concat (map date_payment_models xs)\<rparr>)"
    using foldl_overwrite_twice[of date_sold applyAmendment "\<lambda>a. date_sold a \<noteq> None" "\<lambda>a. date_sold a" d xs]
    by (simp add: applyAmendment_def)
  show "operational_details (foldl applyAmendment (foldl applyAmendment d xs) xs) =
     operational_details ((foldl applyAmendment d xs)
       \<lparr>date_payment_models := date_payment_models (foldl applyAmendment d xs)
          @ concat (map date_payment_models xs)\<rparr>)"
    using foldl_kept[of operational_details applyAmendment] by (simp add: applyAmendment_def)
  show "total_controlled_acres (foldl applyAmendment (foldl applyAmendment d xs) xs) =
     total_controlled_acres ((foldl applyAmendment d xs)
       \<lparr>date_payment_models := date_payment_models (foldl applyAmendment d xs)
          @ concat (map date_payment_models xs)\<rparr>)"
    using foldl_kept[of total_controlled_acres applyAmendment] by (simp add: applyAmendment_def)
  show "agreement_terms (foldl applyAmendment (foldl applyAmendment d xs) xs) =
     agreement_terms ((foldl applyAmendment d xs)
       \<lparr>date_payment_models := date_payment_models (foldl applyAmendment d xs)
          @ concat (map date_payment_models xs)\<rparr>)"
    using foldl_overwrite_twice[of agreement_terms applyAmendment "\<lambda>a. agreement_terms a \<noteq> []" "\<lambda>a. agreement_terms a" d xs]
    by (simp add: applyAmendment_def)
  show "term_payment_models (foldl applyAmendment (foldl applyAmendment d xs) xs) =
     term_payment_models ((foldl applyAmendment d xs)
       \<lparr>date_payment_models := date_payment_models (foldl applyAmendment d xs)
          @ concat (map date_payment_models xs)\<rparr>)"
    using foldl_overwrite_twice[of term_payment_models applyAmendment "\<lambda>a. term_payment_models a \<noteq> []" "\<lambda>a. term_payment_models a" d xs]
    by (simp add: applyAmendment_def)
  show "doc_termination (foldl applyAmendment (foldl applyAmendment d xs) xs) =
     doc_termination ((foldl applyAmendment d xs)
       \<lparr>date_payment_models := date_payment_models (foldl applyAmendment d xs)
          @ concat (map date_payment_models xs)\<rparr>)"
    using foldl_overwrite_twice[of doc_termination applyAmendment "\<lambda>a. doc_termination a \<noteq> None" "\<lambda>a. doc_termination a" d xs]
    by (simp add: applyAmendment_def)
  show "date_payment_models (foldl applyAmendment (foldl applyAmendment d xs) xs) =
     date_payment_models ((foldl applyAmendment d xs)
       \<lparr>date_payment_models := date_payment_models (foldl applyAmendment d xs)
          @ concat (map date_payment_models xs)\<rparr>)"
    by (simp add: foldl_applyAmendment_models)
  show "date_payments (foldl applyAmendment (foldl applyAmendment d xs) xs) =
     date_payments ((foldl applyAmendment d xs)
       \<lparr>date_payment_models := date_payment_models (foldl applyAmendment d xs)
          @ concat (map date_payment_models xs)\<rparr>)"
    using foldl_kept[of date_payments applyAmendment] by (simp add: applyAmendment_def)
  show "review_status (foldl applyAmendment (foldl applyAmendment d xs) xs) =
     review_status ((foldl applyAmendment d xs)
       \<lparr>date_payment_models := date_payment_models (foldl applyAmendment d xs)
          @ concat (map date_payment_models xs)\<rparr>)"
    using foldl_overwrite_twice[of review_status applyAmendment "\<lambda>a. truthyStr (review_status a)" "\<lambda>a. review_status a" d xs]
    by (simp add: applyAmendment_def)
  show "review_status_doc_id (foldl applyAmendment (foldl applyAmendment d xs) xs) =
     review_status_doc_id ((foldl applyAmendment d xs)
       \<lparr>date_payment_models := date_payment_models (foldl applyAmendment d xs)
          @ concat (map date_payment_models xs)\<rparr>)"
    using foldl_overwrite_twice[of review_status_doc_id applyAmendment "\<lambda>a. truthyStr (review_status a)" "\<lambda>a. Some (doc_id a)" d xs]
    by (simp add: applyAmendment_def)
  show "review_status_instance_id (foldl applyAmendment (foldl applyAmendment d xs) xs) =
     review_status_instance_id ((foldl applyAmendment d xs)
       \<lparr>date_payment_models := date_payment_models (foldl applyAmendment d xs)
          @ concat (map date_payment_models xs)\<rparr>)"
    using foldl_overwrite_twice[of review_status_instance_id applyAmendment "\<lambda>a. truthyStr (review_status a)" "\<lambda>a. review_status_instance_id a" d xs]
    by (simp add: applyAmendment_def)
  show "review_status_value_instance_id (foldl applyAmendment (foldl applyAmendment d xs) xs) =
     review_status_value_instance_id ((foldl applyAmendment d xs)
       \<lparr>date_payment_models := date_payment_models (foldl applyAmendment d xs)
          @ concat (map date_payment_models xs)\<rparr>)"
    using foldl_overwrite_twice[of review_status_value_instance_id applyAmendment "\<lambda>a. truthyStr (review_status a)" "\<lambda>a. review_status_value_instance_id a" d xs]
    by (simp add: applyAmendment_def)
  show "review_status_notes (foldl applyAmendment (foldl applyAmendment d xs) xs) =
     review_status_notes ((foldl applyAmendment d xs)
       \<lparr>date_payment_models := date_payment_models (foldl applyAmendment d xs)
          @ concat (map date_payment_models xs)\<rparr>)"
    using foldl_overwrite_twice[of review_status_notes applyAmendment "\<lambda>a. truthyStr (review_status a)" "\<lambda>a. review_status_notes a" d xs]
    by (simp add: applyAmendment_def)
  show "amendments (foldl applyAmendment (foldl applyAmendment d xs) xs) =
     amendments ((foldl applyAmendment d xs)
       \<lparr>date_payment_models := date_payment_models (foldl applyAmendment d xs)
          @ concat (map date_payment_models xs)\<rparr>)"
    using foldl_kept[of amendments applyAmendment] by (simp add: applyAmendment_def)
qed simp

lemma sort_key_Nil_iff: "sort_key f xs = [] \<longleftrightarrow> xs = []"
  by (metis length_sort length_0_conv)

lemma processAmendments_chain:
  "processAmendments this allDocs =
     (if amendmentChain this allDocs = [] then this
      else (foldl applyAmendment this (amendmentChain this allDocs))
             \<lparr>amendments :=
                Some (map doc_id
                  (filter (\<lambda>x. amendment_date x \<noteq> None) (amendmentChain this allDocs)))\<rparr>)"
  by (simp add: processAmendments_def amendmentChain_def Let_def sort_key_Nil_iff)

lemma effective_date_foldl_None:
  "(effective_date (foldl applyAmendment d xs) = None) \<Longrightarrow> effective_date d = None"
proof (induction xs arbitrary: d)
  case Nil
  then show ?case by simp
next
  case (Cons a xs)
  from Cons.IH[of "applyAmendment d a"] Cons.prems
  have "effective_date (applyAmendment d a) = None" by simp
  then show ?case by (simp add: applyAmendment_def split: if_splits)
qed

lemma amendmentChain_processAmendments:
  "amendmentChain (processAmendments this allDocs) allDocs = amendmentChain this allDocs"
proof (cases "amendmentChain this allDocs = []")
  case True
  then show ?thesis by (simp add: processAmendments_chain)
next
  case False
  let ?ams = "amendmentChain this allDocs"
  let ?ids = "Some (map doc_id (filter (\<lambda>x. amendment_date x \<noteq> None) ?ams))"
  have once: "processAmendments this allDocs = (foldl applyAmendment this ?ams)\<lparr>amendments := ?ids\<rparr>"
    using False by (simp add: processAmendments_chain)
  from False have eff: "effective_date this \<noteq> None"
    by (auto simp: amendmentChain_def split: if_splits)
  have "effective_date (foldl applyAmendment this ?ams) \<noteq> None"
  proof
    assume "effective_date (foldl applyAmendment this ?ams) = None"
    from effective_date_foldl_None[OF this] eff show False by simp
  qed
  then have e: "effective_date (processAmendments this allDocs) \<noteq> None"
    by (simp add: once)
  have g: "agreement_group (processAmendments this allDocs) = agreement_group this"
    using foldl_kept[of agreement_group applyAmendment this ?ams]
    by (simp add: once applyAmendment_def)
  have i: "doc_id (processAmendments this allDocs) = doc_id this"
    using foldl_kept[of doc_id applyAmendment this ?ams]
    by (simp add: once applyAmendment_def)
  have "isAmendmentOf (processAmendments this allDocs) = isAmendmentOf this"
    by (rule ext) (simp only: isAmendmentOf_def g i)
  with e eff show ?thesis by (auto simp: amendmentChain_def)
qed

text \<open>
  C2, as amended. Applied a second time to the same collection, the overlay leaves the
  base document as the first application made it, the effective date and the agreement
  terms among all its overwritten fields, except for the date payment models: these
  are the base document's own models followed by the models of the amendments after
  one application, and the models of the amendments are appended once more by the
  second.
\<close>

theorem amendment_overlay_reapplied:
  "processAmendments (processAmendments this allDocs) allDocs =
     (processAmendments this allDocs)
       \<lparr>date_payment_models := date_payment_models (processAmendments this allDocs)
          @ concat (map date_payment_models (amendmentChain this allDocs))\<rparr>
   \<and> date_payment_models (processAmendments this allDocs) =
       date_payment_models this @ concat (map date_payment_models (amendmentChain this allDocs))
   \<and> effective_date (processAmendments (processAmendments this allDocs) allDocs) =
       effective_date (processAmendments this allDocs)
   \<and> agreement_terms (processAmendments (processAmendments this allDocs) allDocs) =
       agreement_terms (processAmendments this allDocs)"
proof -
  let ?ams = "amendmentChain this allDocs"
  let ?ids = "Some (map doc_id (filter (\<lambda>x. amendment_date x \<noteq> None) ?ams))"
  let ?once = "processAmendments this allDocs"
  have twice: "processAmendments ?once allDocs =
     ?once\<lparr>date_payment_models := date_payment_models ?once @ concat (map date_payment_models ?ams)\<rparr>"
  proof (cases "?ams = []")
    case True
    then have "?once = this" by (simp add: processAmendments_chain)
    with True show ?thesis by (simp add: processAmendments_chain)
  next
    case False
    have once: "?once = (foldl applyAmendment this ?ams)\<lparr>amendments := ?ids\<rparr>"
      using False by (simp add: processAmendments_chain)
    have "processAmendments ?once allDocs =
        (foldl applyAmendment ?once ?ams)\<lparr>amendments := ?ids\<rparr>"
      using False
      by (simp add: processAmendments_chain[of ?once] amendmentChain_processAmendments)
    also have "foldl applyAmendment ?once ?ams =
        (foldl applyAmendment (foldl applyAmendment this ?ams) ?ams)\<lparr>amendments := ?ids\<rparr>"
      by (simp only: once foldl_applyAmendment_amendments)
    also have "foldl applyAmendment (foldl applyAmendment this ?ams) ?ams =
        (foldl applyAmendment this ?ams)
          \<lparr>date_payment_models := date_payment_models (foldl applyAmendment this ?ams)
             @ concat (map date_payment_models ?ams)\<rparr>"
      by (rule foldl_applyAmendment_twice)
    finally show ?thesis by (simp add: once)
  qed
  have models: "date_payment_models ?once =
       date_payment_models this @ concat (map date_payment_models ?ams)"
    by (cases "?ams = []") (simp_all add: processAmendments_chain foldl_applyAmendment_models)
  have "effective_date (processAmendments ?once allDocs) = effective_date ?once"
    by (simp add: twice)
  moreover have "agreement_terms (processAmendments ?once allDocs) = agreement_terms ?once"
    by (simp add: twice)
  ultimately show ?thesis using twice models by simp
qed

lemma exAmendment_chain:
  "amendmentChain exDoc [exDoc, exAmendment] = [exAmendment]"
  by code_simp

theorem amendment_overlay_reapplied_witness:
  "amendmentChain exDoc [exDoc, exAmendment] = [exAmendment]
   \<and> date_payment_models (processAmendments exDoc [exDoc, exAmendment]) =
       date_payment_models exDoc @ date_payment_models exAmendment
   \<and> processAmendments (processAmendments exDoc [exDoc, exAmendment]) [exDoc, exAmendment] =
      (processAmendments exDoc [exDoc, exAmendment])
        \<lparr>date_payment_models := date_payment_models (processAmendments exDoc [exDoc, exAmendment])
           @ date_payment_models exAmendment\<rparr>"
  using amendment_overlay_reapplied[of exDoc "[exDoc, exAmendment]"]
  by (simp add: exAmendment_chain)

text \<open>
  C2, as stated, fails. One amendment brings one date payment model: after one
  application the base document has that model once and generates two payment events
  from it, after two applications it has the model twice and generates four.
\<close>

theorem amendment_overlay_idempotence_counterexample:
  "map dpm_id (date_payment_models (processAmendments exDoc [exDoc, exAmendment])) = [''added'']
   \<and> map dpm_id (date_payment_models
         (processAmendments (processAmendments exDoc [exDoc, exAmendment]) [exDoc, exAmendment]))
       = [''added'', ''added'']
   \<and> map_option length
         (calcDatePaymentModels (processAmendments exDoc [exDoc, exAmendment])
            (date_payment_models (processAmendments exDoc [exDoc, exAmendment]))) = Some 2
   \<and> map_option length
         (calcDatePaymentModels
            (processAmendments (processAmendments exDoc [exDoc, exAmendment]) [exDoc, exAmendment])
            (date_payment_models
               (processAmendments (processAmendments exDoc [exDoc, exAmendment])
                  [exDoc, exAmendment]))) = Some 4
   \<and> processAmendments (processAmendments exDoc [exDoc, exAmendment]) [exDoc, exAmendment]
       \<noteq> processAmendments exDoc [exDoc, exAmendment]"
proof -
  have a: "map dpm_id (date_payment_models (processAmendments exDoc [exDoc, exAmendment])) = [''added'']"
    by code_simp
  have b: "map dpm_id (date_payment_models
         (processAmendments (processAmendments exDoc [exDoc, exAmendment]) [exDoc, exAmendment]))
       = [''added'', ''added'']"
    by code_simp
  have c: "map_option length
         (calcDatePaymentModels (processAmendments exDoc [exDoc, exAmendment])
            (date_payment_models (processAmendments exDoc [exDoc, exAmendment]))) = Some 2"
    by code_simp
  have d: "map_option length
         (calcDatePaymentModels
            (processAmendments (processAmendments exDoc [exDoc, exAmendment]) [exDoc, exAmendment])
            (date_payment_models
               (processAmendments (processAmendments exDoc [exDoc, exAmendment])
                  [exDoc, exAmendment]))) = Some 4"
    by code_simp
  from a b have "processAmendments (processAmendments exDoc [exDoc, exAmendment]) [exDoc, exAmendment]
       \<noteq> processAmendments exDoc [exDoc, exAmendment]"
    by auto
  with a b c d show ?thesis by simp
qed

end
